theory Spec2Isabelle
  imports Main
begin

section \<open>Text\<close>

text \<open>
  A Python \<open>str\<close> is a sequence of Unicode code points, and \<open>len\<close>, slicing and the
  regular expressions of the program count code points. A character is therefore a
  natural number (its code point) and a text a list of them. \<open>asc\<close> turns an ASCII
  literal into such a text; characters outside ASCII are written by their code point.
\<close>

type_synonym ustr = "nat list"

definition asc :: "string \<Rightarrow> ustr" where
  "asc s = map of_char s"

text \<open>\<open>str.isspace\<close> of one character, which is also the class \<open>\s\<close> of \<open>re\<close> on texts.\<close>

definition is_space :: "nat \<Rightarrow> bool" where
  "is_space c \<longleftrightarrow>
     (9 \<le> c \<and> c \<le> 13) \<or> (28 \<le> c \<and> c \<le> 32) \<or> c = 133 \<or> c = 160 \<or> c = 5760 \<or>
     (8192 \<le> c \<and> c \<le> 8202) \<or> c = 8232 \<or> c = 8233 \<or> c = 8239 \<or> c = 8287 \<or> c = 12288"

text \<open>
  The decimal digits: the characters for which \<open>str.isdecimal\<close> holds. They are what the
  class \<open>\d\<close> of \<open>re\<close> matches in a text and what \<open>int\<close> reads as digits. In the
  character database of the interpreter (Unicode 14.0 in Python 3.11) they come in 66
  runs of ten, each from the zero to the nine of one script; \<open>digit_zeros\<close> lists the
  zeros. \<open>digit_value\<close> is the value of a digit, \<open>None\<close> for every other character.
\<close>

definition digit_zeros :: "nat list" where
  "digit_zeros =
     [48, 1632, 1776, 1984, 2406, 2534, 2662, 2790, 2918, 3046, 3174, 3302, 3430, 3558, 3664,
      3792, 3872, 4160, 4240, 6112, 6160, 6470, 6608, 6784, 6800, 6992, 7088, 7232, 7248,
      42528, 43216, 43264, 43472, 43504, 43600, 44016, 65296, 66720, 68912, 69734, 69872,
      69942, 70096, 70384, 70736, 70864, 71248, 71360, 71472, 71904, 72016, 72784, 73040,
      73120, 92768, 92864, 93008, 120782, 120792, 120802, 120812, 120822, 123200, 123632,
      125264, 130032]"

definition digit_value :: "nat \<Rightarrow> nat option" where
  "digit_value c = map_option (\<lambda>z. c - z) (find (\<lambda>z. z \<le> c \<and> c < z + 10) digit_zeros)"

definition is_digit :: "nat \<Rightarrow> bool" where
  "is_digit c \<longleftrightarrow> digit_value c \<noteq> None"

definition strip :: "ustr \<Rightarrow> ustr" where
  "strip s = rev (dropWhile is_space (rev (dropWhile is_space s)))"

text \<open>\<open>str(n)\<close> of an integer: its decimal digits, with a minus sign when negative.\<close>

function digits_of_nat :: "nat \<Rightarrow> ustr" where
  "digits_of_nat n = (if n < 10 then [48 + n] else digits_of_nat (n div 10) @ [48 + n mod 10])"
  by pat_completeness auto
termination
  by (relation "measure (\<lambda>n. n)") auto

declare digits_of_nat.simps [simp del]

definition str_of_int :: "int \<Rightarrow> ustr" where
  "str_of_int i = (if i < 0 then 45 # digits_of_nat (nat (- i)) else digits_of_nat (nat i))"

text \<open>
  \<open>int(s)\<close> of a text, in base ten. Whitespace around the numeral is dropped; here the
  four separators 28 to 31 do not count as whitespace, though \<open>strip\<close> takes them. A sign
  may lead, the digits may be of any script, and single underscores may stand between
  digits. A numeral of more than \<open>int_max_str_digits\<close> digits is refused; 4300 is the
  limit the interpreter starts with, and the program does not change it. \<open>None\<close> is
  the \<open>ValueError\<close>.
\<close>

definition int_space :: "nat \<Rightarrow> bool" where
  "int_space c \<longleftrightarrow> is_space c \<and> \<not> (28 \<le> c \<and> c \<le> 31)"

definition int_max_str_digits :: nat where
  "int_max_str_digits = 4300"

fun digits_val :: "nat \<Rightarrow> ustr \<Rightarrow> nat option" where
  "digits_val acc [] = Some acc"
| "digits_val acc (c # cs) =
     (case digit_value c of
        Some d \<Rightarrow> digits_val (10 * acc + d) cs
      | None \<Rightarrow>
          if c = 95 then
            (case cs of
               [] \<Rightarrow> None
             | c' # ds \<Rightarrow>
                 (case digit_value c' of
                    Some d \<Rightarrow> digits_val (10 * acc + d) ds
                  | None \<Rightarrow> None))
          else None)"

definition nat_lit :: "ustr \<Rightarrow> nat option" where
  "nat_lit s =
     (if int_max_str_digits < length (filter is_digit s) then None
      else
        (case s of
           [] \<Rightarrow> None
         | c # cs \<Rightarrow>
             (case digit_value c of Some d \<Rightarrow> digits_val d cs | None \<Rightarrow> None)))"

definition py_int :: "ustr \<Rightarrow> int option" where
  "py_int s =
     (case rev (dropWhile int_space (rev (dropWhile int_space s))) of
        [] \<Rightarrow> None
      | c # cs \<Rightarrow>
          if c = 45 then map_option (\<lambda>n. - int n) (nat_lit cs)
          else if c = 43 then map_option int (nat_lit cs)
          else map_option int (nat_lit (c # cs)))"

section \<open>Values, dictionaries and exceptions\<close>

text \<open>
  A song is a Python \<open>dict\<close> from field names to values. The values the program stores
  are integers and texts. A dictionary is an association list in insertion order; its
  keys are the ASCII field names of the source.
\<close>

datatype val = IntV int | StrV ustr

type_synonym dict = "(string \<times> val) list"

datatype exn = KeyError string | ValueError | TypeError | IndexError | OSError | RequestError

definition getitem :: "dict \<Rightarrow> string \<Rightarrow> exn + val" where
  "getitem d k = (case map_of d k of None \<Rightarrow> Inl (KeyError k) | Some v \<Rightarrow> Inr v)"

text \<open>
  Sequencing of steps that may raise: the first exception ends the computation.
\<close>

definition and_then :: "exn + 'a \<Rightarrow> ('a \<Rightarrow> exn + 'b) \<Rightarrow> exn + 'b" where
  "and_then r f = (case r of Inl e \<Rightarrow> Inl e | Inr v \<Rightarrow> f v)"

text \<open>\<open>str(v)\<close>, which is what a replacement field without a format specification prints.\<close>

fun str_of_val :: "val \<Rightarrow> ustr" where
  "str_of_val (IntV i) = str_of_int i"
| "str_of_val (StrV s) = s"

text \<open>
  The replacement field \<open>{v:03d}\<close>: an integer is printed in decimal, padded with zeros
  to width 3, the sign counting for the width; a text raises \<open>ValueError\<close>.
\<close>

definition zero_pad :: "nat \<Rightarrow> ustr \<Rightarrow> ustr" where
  "zero_pad w ds = replicate (w - length ds) 48 @ ds"

fun fmt_03d :: "val \<Rightarrow> exn + ustr" where
  "fmt_03d (IntV i) =
     Inr (if i < 0 then 45 # zero_pad 2 (digits_of_nat (nat (- i)))
          else zero_pad 3 (digits_of_nat (nat i)))"
| "fmt_03d (StrV s) = Inl ValueError"

section \<open>The downloader: file names\<close>

text \<open>
  \<open>SongDownloader.sanitize_filename\<close>: every character of the class
  \<open>[<>:"/\\|?*]\<close> becomes an underscore, and the result is cut to 200 characters.
\<close>

definition illegal_chars :: "nat list" where
  "illegal_chars = [60, 62, 58, 34, 47, 92, 124, 63, 42]"

definition re_sub_illegal :: "ustr \<Rightarrow> ustr" where
  "re_sub_illegal s = map (\<lambda>c. if c \<in> set illegal_chars then 95 else c) s"

definition sanitize_filename :: "ustr \<Rightarrow> ustr" where
  "sanitize_filename filename =
     (let filename = re_sub_illegal filename
      in if length filename > 200 then take 200 filename else filename)"

text \<open>
  The first statements of \<open>download_song\<close>: the formatted name
  \<open>f"{song['index']:03d}. {song['name']} - {song['artist']}.{song['type']}"\<close>,
  sanitised. The fields are read from left to right and the first failure is raised.
\<close>

definition song_filename :: "dict \<Rightarrow> exn + ustr" where
  "song_filename song =
     and_then (getitem song ''index'') (\<lambda>iv.
     and_then (fmt_03d iv) (\<lambda>idx.
     and_then (getitem song ''name'') (\<lambda>nm.
     and_then (getitem song ''artist'') (\<lambda>ar.
     and_then (getitem song ''type'') (\<lambda>ty.
       Inr (sanitize_filename
              (idx @ asc ''. '' @ str_of_val nm @ asc '' - '' @ str_of_val ar
                 @ asc ''.'' @ str_of_val ty)))))))"

section \<open>Regular expressions of the manifest parser\<close>

text \<open>
  The pattern of \<open>parse_list_file\<close> is a sequence of items: single characters and
  repeated character classes, some of them captured as groups. The classes are a literal
  character, \<open>\d\<close>, \<open>\s\<close> and the dot, which matches everything but the line feed.
\<close>

datatype cls = Lit nat | Digit | Space | Dot

fun cls_ok :: "cls \<Rightarrow> nat \<Rightarrow> bool" where
  "cls_ok (Lit a) c = (c = a)"
| "cls_ok Digit c = is_digit c"
| "cls_ok Space c = is_space c"
| "cls_ok Dot c = (c \<noteq> 10)"

text \<open>
  The quantifiers \<open>*\<close>, \<open>+\<close> and \<open>+?\<close>. An item is one character of a class, a repeated
  class, or a repeated class in a capturing group.
\<close>

datatype quant = Star | Plus | PlusLazy

datatype item = Chr cls | Rep quant cls | Grp quant cls

fun is_lazy :: "quant \<Rightarrow> bool" where
  "is_lazy PlusLazy = True"
| "is_lazy q = False"

fun needs_one :: "quant \<Rightarrow> bool" where
  "needs_one Star = False"
| "needs_one q = True"

text \<open>
  Matching at the start of a text, by backtracking as \<open>re\<close> does it: a greedy
  repetition first takes as many characters as it can and gives them back one by one
  while the rest of the pattern fails; a lazy one first takes as few as it may and takes
  one more each time the rest fails. \<open>rmatch\<close> returns the texts of the groups and what
  is left of the text after the match, or \<open>None\<close>. \<open>rloop\<close> is inside a repetition that
  has taken \<open>acc\<close> so far.
\<close>

function rmatch :: "item list \<Rightarrow> ustr \<Rightarrow> (ustr list \<times> ustr) option"
  and rloop :: "bool \<Rightarrow> cls \<Rightarrow> bool \<Rightarrow> item list \<Rightarrow> ustr \<Rightarrow> ustr \<Rightarrow> (ustr list \<times> ustr) option"
where
  "rmatch [] s = Some ([], s)"
| "rmatch (Chr c # p) [] = None"
| "rmatch (Chr c # p) (x # xs) = (if cls_ok c x then rmatch p xs else None)"
| "rmatch (Rep q c # p) s =
     (if needs_one q then
        (case s of [] \<Rightarrow> None
         | x # xs \<Rightarrow> if cls_ok c x then rloop (is_lazy q) c False p [x] xs else None)
      else rloop (is_lazy q) c False p [] s)"
| "rmatch (Grp q c # p) s =
     (if needs_one q then
        (case s of [] \<Rightarrow> None
         | x # xs \<Rightarrow> if cls_ok c x then rloop (is_lazy q) c True p [x] xs else None)
      else rloop (is_lazy q) c True p [] s)"
| "rloop lz c cap p acc [] =
     (case rmatch p [] of None \<Rightarrow> None
      | Some (gs, r) \<Rightarrow> Some ((if cap then [acc] else []) @ gs, r))"
| "rloop lz c cap p acc (x # xs) =
     (if lz then
        (case rmatch p (x # xs) of
           Some (gs, r) \<Rightarrow> Some ((if cap then [acc] else []) @ gs, r)
         | None \<Rightarrow> if cls_ok c x then rloop lz c cap p (acc @ [x]) xs else None)
      else
        (case (if cls_ok c x then rloop lz c cap p (acc @ [x]) xs else None) of
           Some res \<Rightarrow> Some res
         | None \<Rightarrow>
            (case rmatch p (x # xs) of None \<Rightarrow> None
             | Some (gs, r) \<Rightarrow> Some ((if cap then [acc] else []) @ gs, r))))"
  by pat_completeness auto
termination
  by (relation "measure (\<lambda>a. case a of Inl (p, s) \<Rightarrow> 2 * length p + 2 * length s
                                   | Inr (lz, c, cap, p, acc, s) \<Rightarrow> 2 * length p + 2 * length s + 1)")
     auto

text \<open>
  The pattern of the source,
  \<open>(\d+)\.\s*(.+?)\s*-\s*(.+?)\s*\n\s*LABEL\s*(\d+)\s*\n\s*LABEL\s*(.+?)\s*\((\d+)kbps\)\s*\n\<close>
  \<open>\s*LABEL\s*(.+?)\s*\n\s*LABEL\s*(\d+)\s*bytes\s*\n\s*LABEL\s*(.+?)\s*\n\<close>,
  where the five labels are the Chinese words for song ID, quality, link, size and type,
  each with its colon; they are given by their code points.
\<close>

definition lits :: "ustr \<Rightarrow> item list" where
  "lits s = map (\<lambda>c. Chr (Lit c)) s"

definition lbl_song_id :: ustr where "lbl_song_id = [27468, 26354, 73, 68, 58]"
definition lbl_quality :: ustr where "lbl_quality = [38899, 36136, 58]"
definition lbl_url :: ustr where "lbl_url = [30452, 38142, 58]"
definition lbl_size :: ustr where "lbl_size = [22823, 23567, 58]"
definition lbl_type :: ustr where "lbl_type = [31867, 22411, 58]"

definition song_pattern :: "item list" where
  "song_pattern =
     [Grp Plus Digit, Chr (Lit 46), Rep Star Space, Grp PlusLazy Dot, Rep Star Space,
      Chr (Lit 45), Rep Star Space, Grp PlusLazy Dot, Rep Star Space, Chr (Lit 10),
      Rep Star Space] @ lits lbl_song_id @
     [Rep Star Space, Grp Plus Digit, Rep Star Space, Chr (Lit 10),
      Rep Star Space] @ lits lbl_quality @
     [Rep Star Space, Grp PlusLazy Dot, Rep Star Space, Chr (Lit 40), Grp Plus Digit]
      @ lits (asc ''kbps'') @
     [Chr (Lit 41), Rep Star Space, Chr (Lit 10),
      Rep Star Space] @ lits lbl_url @
     [Rep Star Space, Grp PlusLazy Dot, Rep Star Space, Chr (Lit 10),
      Rep Star Space] @ lits lbl_size @
     [Rep Star Space, Grp Plus Digit, Rep Star Space] @ lits (asc ''bytes'') @
     [Rep Star Space, Chr (Lit 10),
      Rep Star Space] @ lits lbl_type @
     [Rep Star Space, Grp PlusLazy Dot, Rep Star Space, Chr (Lit 10)]"

text \<open>
  \<open>re.findall\<close>: the groups of the successive matches, each search starting where the
  match before it ended, and one character further on when there is no match at a
  position. (The pattern of the parser never matches the empty text; for a pattern that
  does, the search here also moves one character on.)
\<close>

function findall :: "item list \<Rightarrow> ustr \<Rightarrow> ustr list list" where
  "findall p [] = (case rmatch p [] of None \<Rightarrow> [] | Some (gs, r) \<Rightarrow> [gs])"
| "findall p (x # xs) =
     (case rmatch p (x # xs) of
        None \<Rightarrow> findall p xs
      | Some (gs, r) \<Rightarrow>
          if length r < length (x # xs) then gs # findall p r else gs # findall p xs)"
  by pat_completeness auto
termination
  by (relation "measure (\<lambda>(p, s). length s)") auto

text \<open>
  The dictionary built from one match. \<open>int\<close> is applied to the first, sixth and eighth
  group.
\<close>

definition song_of_match :: "ustr list \<Rightarrow> exn + dict" where
  "song_of_match m =
     (case m of
        [m0, m1, m2, m3, m4, m5, m6, m7, m8] \<Rightarrow>
          (case (py_int m0, py_int m5, py_int m7) of
             (Some i, Some b, Some z) \<Rightarrow>
               Inr [(''index'', IntV i), (''name'', StrV (strip m1)), (''artist'', StrV (strip m2)),
                    (''song_id'', StrV m3), (''quality'', StrV (strip m4)), (''bitrate'', IntV b),
                    (''url'', StrV (strip m6)), (''size'', IntV z), (''type'', StrV (strip m8))]
           | _ \<Rightarrow> Inl ValueError)
      | _ \<Rightarrow> Inl IndexError)"

text \<open>
  \<open>parse_list_file\<close>. The file is given by its content, \<open>None\<close> when it cannot be read.
  Any exception makes the result the empty list. Throughout, a file is its content as
  Python's text mode reads it.
\<close>

fun collect :: "(exn + 'a) list \<Rightarrow> exn + 'a list" where
  "collect [] = Inr []"
| "collect (r # rs) = and_then r (\<lambda>v. and_then (collect rs) (\<lambda>vs. Inr (v # vs)))"

definition parse_list_file :: "ustr option \<Rightarrow> dict list" where
  "parse_list_file file =
     (case file of
        None \<Rightarrow> []
      | Some content \<Rightarrow>
          (case collect (map song_of_match (findall song_pattern content)) of
             Inl e \<Rightarrow> []
           | Inr songs \<Rightarrow> songs))"

section \<open>Writing the manifest\<close>

text \<open>
  \<open>init_file\<close> writes the three header lines (playlist, quality, time of generation),
  fifty equals signs and an empty line. The time is the text that \<open>time.strftime\<close>
  returns; it is an argument.
\<close>

definition hdr_playlist :: ustr where "hdr_playlist = [35, 32, 27468, 21333, 58, 32]"
definition hdr_quality :: ustr where "hdr_quality = [35, 32, 38899, 36136, 58, 32]"
definition hdr_time :: ustr where "hdr_time = [35, 32, 29983, 25104, 26102, 38388, 58, 32]"

definition separator :: ustr where "separator = replicate 50 61"

definition init_file :: "ustr \<Rightarrow> ustr \<Rightarrow> ustr \<Rightarrow> ustr" where
  "init_file playlist_name quality_level now =
     hdr_playlist @ playlist_name @ [10] @
     hdr_quality @ quality_level @ [10] @
     hdr_time @ now @ [10] @
     separator @ [10, 10]"

text \<open>
  \<open>append_song_to_file\<close> writes eleven lines: the numbered title, the five labelled
  fields, four fixed lines of advice and an empty line. A field that is missing raises
  \<open>KeyError\<close> when its line is formatted; the handler prints, and the file keeps the
  lines written before.
\<close>

definition note1 :: ustr where
  "note1 = [32, 32, 32, 19979, 36733, 35828, 26126, 58, 32, 27492, 30452, 38142, 38656, 35201,
     28155, 21152, 82, 101, 102, 101, 114, 101, 114, 35831, 27714, 22836, 25165, 33021, 27491,
     24120, 35775, 38382, 10]"
definition note2 :: ustr where
  "note2 = [32, 32, 32, 25512, 33616, 19979, 36733, 24037, 20855, 58, 32, 73, 68, 77, 12289, 65,
     114, 105, 97, 50, 12289, 99, 117, 114, 108, 31561, 25903, 25345, 33258, 23450, 20041, 35831,
     27714, 22836, 30340, 24037, 20855, 10]"
definition note3 :: ustr where
  "note3 = [32, 32, 32, 24517, 35201, 35831, 27714, 22836, 58, 32]
     @ asc ''Referer: https://music.163.com/'' @ [10]"
definition note4 :: ustr where
  "note4 = asc ''   User-Agent: Mozilla/5.0 (Windows NT 10.0; Win64; x64) AppleWebKit/537.36'' @ [10]"

definition unknown :: ustr where "unknown = [26410, 30693]"

definition field_str :: "dict \<Rightarrow> string \<Rightarrow> exn + ustr" where
  "field_str d k = and_then (getitem d k) (\<lambda>v. Inr (str_of_val v))"

definition get_or :: "dict \<Rightarrow> string \<Rightarrow> val \<Rightarrow> val" where
  "get_or d k dflt = (case map_of d k of None \<Rightarrow> dflt | Some v \<Rightarrow> v)"

definition song_lines :: "dict \<Rightarrow> int \<Rightarrow> (exn + ustr) list" where
  "song_lines song index =
     [and_then (field_str song ''name'') (\<lambda>n. and_then (field_str song ''artist'') (\<lambda>a.
        Inr (str_of_int index @ asc ''. '' @ n @ asc '' - '' @ a @ [10]))),
      Inr (asc ''   '' @ lbl_song_id @ asc '' '' @ str_of_val (get_or song ''song_id'' (StrV unknown)) @ [10]),
      and_then (field_str song ''quality'') (\<lambda>q. and_then (field_str song ''bitrate'') (\<lambda>b.
        Inr (asc ''   '' @ lbl_quality @ asc '' '' @ q @ asc '' ('' @ b @ asc ''kbps)'' @ [10]))),
      and_then (field_str song ''url'') (\<lambda>u. Inr (asc ''   '' @ lbl_url @ asc '' '' @ u @ [10])),
      and_then (field_str song ''size'') (\<lambda>z.
        Inr (asc ''   '' @ lbl_size @ asc '' '' @ z @ asc '' bytes'' @ [10])),
      and_then (field_str song ''type'') (\<lambda>t. Inr (asc ''   '' @ lbl_type @ asc '' '' @ t @ [10])),
      Inr note1, Inr note2, Inr note3, Inr note4, Inr [10]]"

fun written :: "(exn + ustr) list \<Rightarrow> ustr" where
  "written [] = []"
| "written (Inl e # ls) = []"
| "written (Inr l # ls) = l @ written ls"

definition append_song_to_file :: "dict \<Rightarrow> int \<Rightarrow> ustr \<Rightarrow> ustr" where
  "append_song_to_file song index content = content @ written (song_lines song index)"

section \<open>The summary footer\<close>

text \<open>
  \<open>f.readlines()\<close>: the lines of a text, each with its line feed, the last one
  possibly without.
\<close>

fun readlines :: "ustr \<Rightarrow> ustr list" where
  "readlines [] = []"
| "readlines (c # cs) =
     (if c = 10 then [10] # readlines cs
      else (case readlines cs of [] \<Rightarrow> [[c]] | l # ls \<Rightarrow> (c # l) # ls))"

definition startswith :: "ustr \<Rightarrow> ustr \<Rightarrow> bool" where
  "startswith s p \<longleftrightarrow> take (length p) s = p"

text \<open>
  The loop that looks for the end of the header: at the first line \<open>i\<close> that starts
  with fifty equals signs \<open>header_end\<close> becomes \<open>i + 2\<close>; it stays 0 when there is none.
\<close>

fun find_header_end :: "nat \<Rightarrow> ustr list \<Rightarrow> nat" where
  "find_header_end i [] = 0"
| "find_header_end i (line # rest) =
     (if startswith line separator then i + 2 else find_header_end (i + 1) rest)"

definition ft_stat :: ustr where "ft_stat = [35, 32, 32479, 35745, 20449, 24687, 10]"
definition ft_count :: ustr where
  "ft_count = [35, 32, 25104, 21151, 33719, 21462, 30452, 38142, 30340, 27468, 26354, 58, 32]"
definition ft_songs :: ustr where "ft_songs = [32, 39318, 10]"
definition ft_time :: ustr where "ft_time = [35, 32, 23436, 25104, 26102, 38388, 58, 32]"

definition footer :: "int \<Rightarrow> ustr \<Rightarrow> ustr" where
  "footer total_count now =
     [10] @ separator @ [10] @ ft_stat @ ft_count @ str_of_int total_count @ ft_songs
     @ ft_time @ now @ [10]"

text \<open>
  \<open>update_file_summary\<close> reads the lines, reopens the file for writing (which empties
  it) and writes \<open>lines[i]\<close> for each \<open>i\<close> below \<open>header_end\<close>, then the lines from
  \<open>header_end\<close> on, then the footer. \<open>lines[i]\<close> raises \<open>IndexError\<close> beyond the last
  line; the handler prints, and the file keeps what was written until then.
\<close>

definition line_at :: "ustr list \<Rightarrow> nat \<Rightarrow> exn + ustr" where
  "line_at lines i = (if i < length lines then Inr (lines ! i) else Inl IndexError)"

definition update_file_summary :: "int \<Rightarrow> ustr \<Rightarrow> ustr \<Rightarrow> ustr" where
  "update_file_summary total_count now content =
     (let lines = readlines content;
          header_end = find_header_end 0 lines
      in written (map (line_at lines) [0..<header_end]
                  @ [Inr (concat (drop header_end lines)), Inr (footer total_count now)]))"

section \<open>The playlist identifier\<close>

text \<open>
  \<open>extract_playlist_id\<close> relies on \<open>urllib.parse\<close>. \<open>urlparse\<close> is embedded as
  CPython defines it: leading control characters and spaces are dropped, tabs and line
  breaks are removed, then the scheme, the network location, the fragment, the query and
  the parameters are split off, in this order. Of the checks on the network location
  the one for a single square bracket is embedded; the validation of a bracketed
  address and of a non-ASCII host is not.
\<close>

record url_parts =
  scheme :: ustr
  netloc :: ustr
  path :: ustr
  params :: ustr
  query :: ustr
  fragment :: ustr

fun contains :: "ustr \<Rightarrow> ustr \<Rightarrow> bool" where
  "contains [] sub = (sub = [])"
| "contains (c # cs) sub = (startswith (c # cs) sub \<or> contains cs sub)"

definition before :: "nat \<Rightarrow> ustr \<Rightarrow> ustr" where
  "before ch s = takeWhile (\<lambda>c. c \<noteq> ch) s"

definition after :: "nat \<Rightarrow> ustr \<Rightarrow> ustr" where
  "after ch s = drop 1 (dropWhile (\<lambda>c. c \<noteq> ch) s)"

text \<open>\<open>s.split(ch)\<close>: the parts between the occurrences of one character.\<close>

fun split :: "nat \<Rightarrow> ustr \<Rightarrow> ustr list" where
  "split ch [] = [[]]"
| "split ch (c # cs) =
     (if c = ch then [] # split ch cs
      else (case split ch cs of [] \<Rightarrow> [[c]] | p # ps \<Rightarrow> (c # p) # ps))"

definition is_alpha :: "nat \<Rightarrow> bool" where
  "is_alpha c \<longleftrightarrow> (65 \<le> c \<and> c \<le> 90) \<or> (97 \<le> c \<and> c \<le> 122)"

definition scheme_char :: "nat \<Rightarrow> bool" where
  "scheme_char c \<longleftrightarrow> is_alpha c \<or> (48 \<le> c \<and> c \<le> 57) \<or> c = 43 \<or> c = 45 \<or> c = 46"

definition lower :: "ustr \<Rightarrow> ustr" where
  "lower s = map (\<lambda>c. if 65 \<le> c \<and> c \<le> 90 then c + 32 else c) s"

definition uses_params :: "ustr list" where
  "uses_params = map asc ['''', ''ftp'', ''hdl'', ''prospero'', ''http'', ''imap'', ''https'',
     ''shttp'', ''rtsp'', ''rtspu'', ''sip'', ''sips'', ''mms'', ''sftp'', ''tel'']"

text \<open>The scheme: the text before the first colon, when it is a letter followed by scheme
  characters.\<close>

definition split_scheme :: "ustr \<Rightarrow> ustr \<times> ustr" where
  "split_scheme url =
     (let s = before 58 url
      in if 58 \<in> set url \<and> s \<noteq> [] \<and> is_alpha (hd s) \<and> list_all scheme_char s
         then (lower s, after 58 url) else ([], url))"

text \<open>The network location: after a leading \<open>//\<close>, up to the first of \<open>/ ? #\<close>.\<close>

definition split_netloc :: "ustr \<Rightarrow> ustr \<times> ustr" where
  "split_netloc url =
     (if take 2 url = [47, 47]
      then (takeWhile (\<lambda>c. c \<notin> {47, 63, 35}) (drop 2 url),
            dropWhile (\<lambda>c. c \<notin> {47, 63, 35}) (drop 2 url))
      else ([], url))"

text \<open>\<open>_splitparams\<close>: the parameters follow the first semicolon of the last path segment.\<close>

definition last_segment :: "ustr \<Rightarrow> ustr" where
  "last_segment url = rev (takeWhile (\<lambda>c. c \<noteq> 47) (rev url))"

definition split_params :: "ustr \<Rightarrow> ustr \<times> ustr" where
  "split_params url =
     (if 59 \<in> set (last_segment url)
      then (take (length url - length (last_segment url)) url @ before 59 (last_segment url),
            after 59 (last_segment url))
      else (url, []))"

definition urlparse :: "ustr \<Rightarrow> exn + url_parts" where
  "urlparse url0 =
     (let url1 = filter (\<lambda>c. c \<notin> {9, 10, 13}) (dropWhile (\<lambda>c. c \<le> 32) url0);
          (sch, url2) = split_scheme url1;
          (loc, url3) = split_netloc url2
      in if (91 \<in> set loc) \<noteq> (93 \<in> set loc) then Inl ValueError
         else
           (let frag = (if 35 \<in> set url3 then after 35 url3 else []);
                url4 = (if 35 \<in> set url3 then before 35 url3 else url3);
                qry = (if 63 \<in> set url4 then after 63 url4 else []);
                url5 = (if 63 \<in> set url4 then before 63 url4 else url4);
                (pth, prm) = (if sch \<in> set uses_params \<and> 59 \<in> set url5
                              then split_params url5 else (url5, []))
            in Inr \<lparr>scheme = sch, netloc = loc, path = pth, params = prm, query = qry,
                     fragment = frag\<rparr>))"

text \<open>
  \<open>parse_qs\<close>: the query is cut at \<open>&\<close>; a field without \<open>=\<close> or with an empty value is
  dropped; in name and value \<open>+\<close> becomes a space and percent escapes are decoded.
  \<open>unquote\<close> returns a text without \<open>%\<close> as it is; the decoding proper of the others is
  the parameter \<open>dec\<close>. The result lists the fields in order, so the first value of a name
  is \<open>params[name][0]\<close>.
\<close>

definition unquote :: "(ustr \<Rightarrow> ustr) \<Rightarrow> ustr \<Rightarrow> ustr" where
  "unquote dec s = (if 37 \<in> set s then dec s else s)"

definition plus_to_space :: "ustr \<Rightarrow> ustr" where
  "plus_to_space s = map (\<lambda>c. if c = 43 then 32 else c) s"

definition parse_field :: "(ustr \<Rightarrow> ustr) \<Rightarrow> ustr \<Rightarrow> (ustr \<times> ustr) list" where
  "parse_field dec name_value =
     (if 61 \<in> set name_value \<and> after 61 name_value \<noteq> []
      then [(unquote dec (plus_to_space (before 61 name_value)),
             unquote dec (plus_to_space (after 61 name_value)))]
      else [])"

definition parse_qs :: "(ustr \<Rightarrow> ustr) \<Rightarrow> ustr \<Rightarrow> (ustr \<times> ustr) list" where
  "parse_qs dec qs = concat (map (parse_field dec) (split 38 qs))"

text \<open>
  The loop over the path segments: the segment after the first \<open>playlist\<close> that has a
  successor.
\<close>

fun after_playlist :: "ustr list \<Rightarrow> ustr option" where
  "after_playlist [] = None"
| "after_playlist [part] = None"
| "after_playlist (part # next # rest) =
     (if part = asc ''playlist'' then Some next else after_playlist (next # rest))"

text \<open>
  \<open>extract_playlist_id\<close>. \<open>None\<close> is Python's \<open>None\<close>: the value of the handler, and the
  value of a call that reaches the end of the function without a \<open>return\<close>.
\<close>

definition extract_playlist_id :: "(ustr \<Rightarrow> ustr) \<Rightarrow> ustr \<Rightarrow> ustr option" where
  "extract_playlist_id dec playlist_url =
     (if contains playlist_url (asc ''playlist'') then
        (case urlparse playlist_url of
           Inl e \<Rightarrow> None
         | Inr parsed \<Rightarrow>
             if query parsed \<noteq> [] then map_of (parse_qs dec (query parsed)) (asc ''id'')
             else after_playlist (split 47 (path parsed)))
      else Some playlist_url)"

section \<open>The remote interface\<close>

text \<open>
  What the program does to the outside is recorded as a list of events, in order. The
  pauses are in milliseconds; the pause before each link request is drawn at random
  between one and three seconds and recorded without its length.
\<close>

datatype event =
    PostDetail ustr
  | PostSongs "int list"
  | GetSongUrl int ustr
  | GetFile ustr
  | Sleep nat
  | RandomSleep

text \<open>
  A request either raises (\<open>NoResponse\<close>: a timeout, a refused connection) or brings a
  status code and a body. The body is \<open>None\<close> when \<open>response.json()\<close> or the reading of
  its fields raises, and else carries the fields that the program reads; an optional
  field is \<open>None\<close> when the document does not have it.
\<close>

datatype 'a response = NoResponse | Response int "'a option"

record playlist =
  pl_name :: "ustr option"
  track_ids :: "int list"

record detail_payload =
  dp_code :: "int option"
  dp_playlist :: "playlist option"

record song_detail =
  sd_id :: int
  sd_name :: "ustr option"
  sd_artists :: "ustr list"

record songs_payload =
  sp_code :: "int option"
  sp_songs :: "song_detail list"

record url_entry =
  ue_url :: "ustr option"
  ue_br :: "int option"
  ue_size :: "int option"
  ue_type :: "ustr option"

record url_payload =
  up_code :: "int option"
  up_data :: "url_entry list"

record url_info =
  ui_url :: ustr
  ui_level :: ustr
  ui_br :: int
  ui_size :: int
  ui_type :: ustr
  ui_song_id :: int

definition emit :: "event list \<Rightarrow> 'a \<times> event list \<Rightarrow> 'a \<times> event list" where
  "emit es r = (fst r, es @ snd r)"

text \<open>
  The end of a failed attempt: \<open>if attempt < max_retries - 1: time.sleep(..); continue\<close>,
  and \<open>return None\<close> otherwise. \<open>again\<close> is the rest of the loop.
\<close>

definition retry_or_stop ::
  "bool \<Rightarrow> nat \<Rightarrow> 'a option \<times> event list \<Rightarrow> 'a option \<times> event list" where
  "retry_or_stop retrying ms again = (if retrying then emit [Sleep ms] again else (None, []))"

subsection \<open>get_playlist_detail\<close>

fun detail_loop ::
  "(nat \<Rightarrow> detail_payload response) \<Rightarrow> ustr \<Rightarrow> nat list \<Rightarrow> playlist option \<times> event list" where
  "detail_loop api playlist_id [] = (None, [])"
| "detail_loop api playlist_id (attempt # rest) =
     emit [PostDetail playlist_id]
       (case api attempt of
          NoResponse \<Rightarrow>
            retry_or_stop (attempt < 3 - 1) 3000 (detail_loop api playlist_id rest)
        | Response status body \<Rightarrow>
            if status = 404 then (None, [])
            else if status = 403 then (None, [])
            else if status \<noteq> 200 then
              retry_or_stop (attempt < 3 - 1) 3000 (detail_loop api playlist_id rest)
            else
              (case body of
                 None \<Rightarrow> retry_or_stop (attempt < 3 - 1) 3000 (detail_loop api playlist_id rest)
               | Some data \<Rightarrow>
                   if dp_code data = Some 200 then (dp_playlist data, [])
                   else retry_or_stop (attempt < 3 - 1) 3000
                          (detail_loop api playlist_id rest)))"

definition get_playlist_detail ::
  "(nat \<Rightarrow> detail_payload response) \<Rightarrow> ustr \<Rightarrow> playlist option \<times> event list" where
  "get_playlist_detail api playlist_id = detail_loop api playlist_id [0..<3]"

subsection \<open>get_playlist_tracks\<close>

definition batch_size :: nat where
  "batch_size = 50"

text \<open>The slices \<open>song_ids[i:i+n]\<close> for \<open>i\<close> in \<open>range(0, len(song_ids), n)\<close>.\<close>

function batches :: "nat \<Rightarrow> 'a list \<Rightarrow> 'a list list" where
  "batches n xs = (if xs = [] \<or> n = 0 then [] else take n xs # batches n (drop n xs))"
  by pat_completeness auto
termination
  by (relation "measure (\<lambda>(n, xs). length xs)") auto

declare batches.simps [simp del]

text \<open>
  The loop over the batches. A status other than 200 goes on with the next batch at
  once; an answer with another code than 200 adds nothing; an exception leaves the loop
  and the function.
\<close>

fun songs_loop ::
  "(int list \<Rightarrow> songs_payload response) \<Rightarrow> int list list \<Rightarrow> song_detail list
     \<Rightarrow> (exn + song_detail list) \<times> event list" where
  "songs_loop api [] all_songs = (Inr all_songs, [])"
| "songs_loop api (batch_ids # rest) all_songs =
     emit [PostSongs batch_ids]
       (case api batch_ids of
          NoResponse \<Rightarrow> (Inl RequestError, [])
        | Response status body \<Rightarrow>
            if status \<noteq> 200 then songs_loop api rest all_songs
            else
              (case body of
                 None \<Rightarrow> (Inl ValueError, [])
               | Some result \<Rightarrow>
                   emit [Sleep 500]
                     (songs_loop api rest
                        (if sp_code result = Some 200 then all_songs @ sp_songs result
                         else all_songs))))"

definition get_playlist_tracks ::
  "detail_payload response \<Rightarrow> (int list \<Rightarrow> songs_payload response) \<Rightarrow> ustr
     \<Rightarrow> song_detail list \<times> event list" where
  "get_playlist_tracks detail api playlist_id =
     emit [PostDetail playlist_id]
       (case detail of
          NoResponse \<Rightarrow> ([], [])
        | Response status body \<Rightarrow>
            if status \<noteq> 200 then ([], [])
            else
              (case body of
                 None \<Rightarrow> ([], [])
               | Some result \<Rightarrow>
                   if dp_code result \<noteq> Some 200 then ([], [])
                   else
                     (case dp_playlist result of
                        None \<Rightarrow> ([], [])
                      | Some pl \<Rightarrow>
                          if track_ids pl = [] then ([], [])
                          else
                            (case songs_loop api (batches batch_size (track_ids pl)) [] of
                               (Inl e, ev) \<Rightarrow> ([], ev)
                             | (Inr all_songs, ev) \<Rightarrow> (all_songs, ev)))))"

subsection \<open>get_song_url_v1\<close>

definition truthy :: "ustr option \<Rightarrow> bool" where
  "truthy u \<longleftrightarrow> (case u of None \<Rightarrow> False | Some s \<Rightarrow> s \<noteq> [])"

definition url_info_of :: "url_entry \<Rightarrow> ustr \<Rightarrow> int \<Rightarrow> url_info" where
  "url_info_of song_data quality_level song_id =
     \<lparr>ui_url = (case ue_url song_data of None \<Rightarrow> [] | Some u \<Rightarrow> u),
      ui_level = quality_level,
      ui_br = (case ue_br song_data of None \<Rightarrow> 0 | Some b \<Rightarrow> b),
      ui_size = (case ue_size song_data of None \<Rightarrow> 0 | Some z \<Rightarrow> z),
      ui_type = (case ue_type song_data of None \<Rightarrow> [] | Some t \<Rightarrow> t),
      ui_song_id = song_id\<rparr>"

fun url_loop ::
  "(int \<Rightarrow> ustr \<Rightarrow> nat \<Rightarrow> url_payload response) \<Rightarrow> int \<Rightarrow> ustr \<Rightarrow> nat list
     \<Rightarrow> url_info option \<times> event list" where
  "url_loop api song_id quality_level [] = (None, [])"
| "url_loop api song_id quality_level (attempt # rest) =
     emit [RandomSleep, GetSongUrl song_id quality_level]
       (case api song_id quality_level attempt of
          NoResponse \<Rightarrow>
            retry_or_stop (attempt < 2 - 1) 500 (url_loop api song_id quality_level rest)
        | Response status body \<Rightarrow>
            if status \<noteq> 200 then
              retry_or_stop (attempt < 2 - 1) 500 (url_loop api song_id quality_level rest)
            else
              (case body of
                 None \<Rightarrow>
                   retry_or_stop (attempt < 2 - 1) 500 (url_loop api song_id quality_level rest)
               | Some data \<Rightarrow>
                   if up_code data = Some 200 \<and> up_data data \<noteq> [] then
                     (if truthy (ue_url (hd (up_data data)))
                      then (Some (url_info_of (hd (up_data data)) quality_level song_id), [])
                      else (None, []))
                   else retry_or_stop (attempt < 2 - 1) 500
                          (url_loop api song_id quality_level rest)))"

definition get_song_url_v1 ::
  "(int \<Rightarrow> ustr \<Rightarrow> nat \<Rightarrow> url_payload response) \<Rightarrow> int \<Rightarrow> ustr
     \<Rightarrow> url_info option \<times> event list" where
  "get_song_url_v1 api song_id quality_level = url_loop api song_id quality_level [0..<2]"

subsection \<open>process_playlist\<close>

definition unknown_song :: ustr where "unknown_song = [26410, 30693, 27468, 26354]"
definition unknown_artist :: ustr where "unknown_artist = [26410, 30693, 27468, 25163]"
definition unknown_playlist :: ustr where "unknown_playlist = [26410, 30693, 27468, 21333]"

fun join :: "ustr \<Rightarrow> ustr list \<Rightarrow> ustr" where
  "join sep [] = []"
| "join sep [x] = x"
| "join sep (x # y # ys) = x @ sep @ join sep (y # ys)"

definition song_info :: "song_detail \<Rightarrow> url_info \<Rightarrow> ustr \<Rightarrow> dict" where
  "song_info song info quality_level =
     [(''name'', StrV (case sd_name song of None \<Rightarrow> unknown_song | Some n \<Rightarrow> n)),
      (''artist'', StrV (if sd_artists song = [] then unknown_artist
                         else join (asc '', '') (sd_artists song))),
      (''url'', StrV (ui_url info)),
      (''quality'', StrV quality_level),
      (''bitrate'', IntV (ui_br info)),
      (''size'', IntV (ui_size info)),
      (''type'', StrV (ui_type info)),
      (''song_id'', IntV (sd_id song))]"

text \<open>
  The loop of \<open>process_playlist\<close> over the songs, numbered from 1: a song with a link is
  appended to the manifest at once and counted; a song without one is only reported.
  The state is the content of the manifest and \<open>success_count\<close>.
\<close>

fun process_songs ::
  "(int \<Rightarrow> ustr \<Rightarrow> nat \<Rightarrow> url_payload response) \<Rightarrow> ustr \<Rightarrow> int \<Rightarrow> song_detail list
     \<Rightarrow> ustr \<times> int \<Rightarrow> (ustr \<times> int) \<times> event list" where
  "process_songs api quality_level i [] st = (st, [])"
| "process_songs api quality_level i (song # rest) st =
     (case get_song_url_v1 api (sd_id song) quality_level of
        (Some info, ev) \<Rightarrow>
          emit (ev @ [Sleep 500])
            (process_songs api quality_level (i + 1) rest
               (append_song_to_file (song_info song info quality_level) i (fst st), snd st + 1))
      | (None, ev) \<Rightarrow>
          emit (ev @ [Sleep 500]) (process_songs api quality_level (i + 1) rest st))"

section \<open>The downloader\<close>

text \<open>
  What \<open>download_song\<close> sees of the outside: the sizes of the files that exist, whether
  a path can be opened for writing, and what the \<open>k\<close>-th \<open>session.get\<close> of a link
  brings. A fetch either raises or brings a status code, the \<open>content-length\<close> header if
  there is one, and the sizes of the chunks that arrive; the flag tells whether the
  stream breaks after them. A file is kept by its size, which is all the program reads
  of it.
\<close>

datatype fetched = FetchRaises | Fetched int "ustr option" "nat list" bool

record world =
  files :: "ustr \<Rightarrow> nat option"
  can_open :: "ustr \<Rightarrow> bool"
  fetch :: "ustr \<Rightarrow> nat \<Rightarrow> fetched"

definition download_dir :: ustr where
  "download_dir = asc ''downloads''"

text \<open>\<open>os.path.join(self.download_dir, filename)\<close>, for a name without a separator.\<close>

definition path_join :: "ustr \<Rightarrow> ustr \<Rightarrow> ustr" where
  "path_join dir filename = dir @ [47] @ filename"

text \<open>
  The test before the download: \<open>os.path.exists(filepath)\<close> and
  \<open>abs(file_size - song['size']) < 1024\<close>. The size of the song is read only when the
  file exists.
\<close>

definition already_there :: "(ustr \<Rightarrow> nat option) \<Rightarrow> ustr \<Rightarrow> dict \<Rightarrow> exn + bool" where
  "already_there fs filepath song =
     (case fs filepath of
        None \<Rightarrow> Inr False
      | Some file_size \<Rightarrow>
          and_then (getitem song ''size'') (\<lambda>v.
            case v of
              IntV z \<Rightarrow> Inr (\<bar>int file_size - z\<bar> < 1024)
            | StrV s \<Rightarrow> Inl TypeError))"

text \<open>
  \<open>int(response.headers.get('content-length', song['size']))\<close>: the default is
  evaluated first, so a song without a size raises even when the header is there.
\<close>

definition total_size :: "dict \<Rightarrow> ustr option \<Rightarrow> exn + int" where
  "total_size song content_length =
     and_then (getitem song ''size'') (\<lambda>v.
       case content_length of
         Some h \<Rightarrow> (case py_int h of None \<Rightarrow> Inl ValueError | Some n \<Rightarrow> Inr n)
       | None \<Rightarrow>
           (case v of
              IntV z \<Rightarrow> Inr z
            | StrV s \<Rightarrow> (case py_int s of None \<Rightarrow> Inl ValueError | Some n \<Rightarrow> Inr n)))"

text \<open>
  One pass through the body of the retry loop. The result tells whether the pass
  returned \<open>True\<close>; every other end of it (a status other than 200 and 206, or any
  exception, which the inner handler catches) is a failed attempt. \<open>open(filepath, 'wb')\<close>
  creates or empties the file, and the chunks that arrive are written to it.
\<close>

definition attempt_download ::
  "world \<Rightarrow> dict \<Rightarrow> ustr \<Rightarrow> nat \<Rightarrow> (ustr \<Rightarrow> nat option)
     \<Rightarrow> bool \<times> event list \<times> (ustr \<Rightarrow> nat option)" where
  "attempt_download w song filepath attempt fs =
     (case getitem song ''url'' of
        Inl e \<Rightarrow> (False, [], fs)
      | Inr u \<Rightarrow>
          (case fetch w (str_of_val u) attempt of
             FetchRaises \<Rightarrow> (False, [GetFile (str_of_val u)], fs)
           | Fetched status content_length chunks broken \<Rightarrow>
               if status = 200 \<or> status = 206 then
                 (case total_size song content_length of
                    Inl e \<Rightarrow> (False, [GetFile (str_of_val u)], fs)
                  | Inr size_hint \<Rightarrow>
                      if \<not> can_open w filepath then (False, [GetFile (str_of_val u)], fs)
                      else (\<not> broken, [GetFile (str_of_val u)],
                            fs(filepath \<mapsto> sum_list chunks)))
               else (False, [GetFile (str_of_val u)], fs)))"

text \<open>
  The loop \<open>for attempt in range(max_retries)\<close>: after a failed attempt it sleeps two
  seconds and goes on while \<open>attempt < max_retries - 1\<close>, and returns \<open>False\<close> otherwise.
\<close>

fun download_loop ::
  "world \<Rightarrow> dict \<Rightarrow> ustr \<Rightarrow> int \<Rightarrow> nat list \<Rightarrow> (ustr \<Rightarrow> nat option)
     \<Rightarrow> bool \<times> event list \<times> (ustr \<Rightarrow> nat option)" where
  "download_loop w song filepath max_retries [] fs = (False, [], fs)"
| "download_loop w song filepath max_retries (attempt # rest) fs =
     (case attempt_download w song filepath attempt fs of
        (ok, ev, fs') \<Rightarrow>
          if ok then (True, ev, fs')
          else if int attempt < max_retries - 1 then
            (case download_loop w song filepath max_retries rest fs' of
               (r, ev', fs'') \<Rightarrow> (r, ev @ Sleep 2000 # ev', fs''))
          else (False, ev, fs'))"

text \<open>
  \<open>download_song\<close>. The result is the value returned, or the exception that leaves the
  function; with it come the events and the files afterwards. The outer handler
  formats \<open>song['index']\<close> for its message before it returns \<open>False\<close>.
\<close>

definition outer_handler ::
  "world \<Rightarrow> dict \<Rightarrow> (exn + bool) \<times> event list \<times> (ustr \<Rightarrow> nat option)" where
  "outer_handler w song =
     (case and_then (getitem song ''index'') fmt_03d of
        Inl e \<Rightarrow> (Inl e, [], files w)
      | Inr idx \<Rightarrow> (Inr False, [], files w))"

definition download_song ::
  "world \<Rightarrow> dict \<Rightarrow> int \<Rightarrow> (exn + bool) \<times> event list \<times> (ustr \<Rightarrow> nat option)" where
  "download_song w song max_retries =
     (case song_filename song of
        Inl e \<Rightarrow> outer_handler w song
      | Inr filename \<Rightarrow>
          (case already_there (files w) (path_join download_dir filename) song of
             Inl e \<Rightarrow> outer_handler w song
           | Inr True \<Rightarrow> (Inr True, [], files w)
           | Inr False \<Rightarrow>
               (case download_loop w song (path_join download_dir filename) max_retries
                       [0..<nat max_retries] (files w) of
                  (r, ev, fs) \<Rightarrow> (Inr r, ev, fs))))"

text \<open>
  \<open>download_all_songs\<close>. \<open>ThreadPoolExecutor(max_workers=max_workers)\<close> comes first; it
  raises \<open>ValueError\<close> when the number is not positive. Every song is submitted as a
  task \<open>download_song(song)\<close>, with the default \<open>max_retries = 3\<close>, and the results are
  counted: \<open>True\<close> as a success, \<open>False\<close> as a failure, and an exception of the task as
  a failure too, after a message that formats \<open>song['index']\<close>, which may raise in its
  turn. On leaving the \<open>with\<close> block the pool waits for its tasks, so all of them run
  even when the counting ends with an exception.

  The tasks are embedded one after the other in the order of submission, each on the
  files that the one before left: the schedule of a pool of one worker. With more
  workers the tasks overlap in time, which the embedding does not show; the number of
  workers that the pool is created with is kept in the report.
\<close>

record pool_report =
  pool_workers :: int
  success_count :: int
  failed_count :: int

fun run_tasks ::
  "world \<Rightarrow> dict list \<Rightarrow> (ustr \<Rightarrow> nat option)
     \<Rightarrow> (dict \<times> (exn + bool)) list \<times> event list \<times> (ustr \<Rightarrow> nat option)" where
  "run_tasks w [] fs = ([], [], fs)"
| "run_tasks w (song # rest) fs =
     (case download_song (w\<lparr>files := fs\<rparr>) song 3 of
        (r, ev, fs') \<Rightarrow>
          (case run_tasks w rest fs' of
             (rs, ev', fs'') \<Rightarrow> ((song, r) # rs, ev @ ev', fs'')))"

fun count_results :: "(dict \<times> (exn + bool)) list \<Rightarrow> int \<times> int \<Rightarrow> exn + int \<times> int" where
  "count_results [] counts = Inr counts"
| "count_results ((song, r) # rest) counts =
     (case r of
        Inr result \<Rightarrow>
          if result then count_results rest (fst counts + 1, snd counts)
          else count_results rest (fst counts, snd counts + 1)
      | Inl e \<Rightarrow>
          and_then (and_then (getitem song ''index'') fmt_03d) (\<lambda>idx.
            count_results rest (fst counts, snd counts + 1)))"

definition download_all_songs ::
  "world \<Rightarrow> dict list \<Rightarrow> int
     \<Rightarrow> (exn + pool_report) \<times> event list \<times> (ustr \<Rightarrow> nat option)" where
  "download_all_songs w songs max_workers =
     (if max_workers \<le> 0 then (Inl ValueError, [], files w)
      else
        (case run_tasks w songs (files w) of
           (results, ev, fs) \<Rightarrow>
             (case count_results results (0, 0) of
                Inl e \<Rightarrow> (Inl e, ev, fs)
              | Inr counts \<Rightarrow>
                  (Inr \<lparr>pool_workers = max_workers, success_count = fst counts,
                        failed_count = snd counts\<rparr>, ev, fs))))"

section \<open>The entry point of the downloader\<close>

text \<open>
  The question for the number of parallel downloads:
  \<open>int(input(..).strip() or "3")\<close>, clamped with \<open>max(1, min(10, ..))\<close>, and 3 when
  \<open>int\<close> raises \<open>ValueError\<close>.
\<close>

definition ask_workers :: "ustr \<Rightarrow> int" where
  "ask_workers line =
     (case py_int (if strip line = [] then asc ''3'' else strip line) of
        None \<Rightarrow> 3
      | Some max_workers \<Rightarrow> max 1 (min 10 max_workers))"

text \<open>
  \<open>main\<close>, by what it ends with: no list file, no songs in it, the user declining, or
  the run of \<open>download_all_songs\<close> on the songs of the list and the number of workers.
  The answers typed by the user are arguments. (\<open>str.lower\<close> is embedded for ASCII
  letters; no other character is lowered to a letter of the accepted answers.)
\<close>

datatype main_outcome =
    NoListFile
  | NoSongs
  | Cancelled
  | Ran "(exn + pool_report) \<times> event list \<times> (ustr \<Rightarrow> nat option)"

definition yes_answers :: "ustr list" where
  "yes_answers = [asc ''y'', asc ''yes'', [26159]]"

definition main :: "world \<Rightarrow> ustr option \<Rightarrow> ustr \<Rightarrow> ustr \<Rightarrow> main_outcome" where
  "main w list_file answer workers_line =
     (case list_file of
        None \<Rightarrow> NoListFile
      | Some content \<Rightarrow>
          if parse_list_file (Some content) = [] then NoSongs
          else if lower (strip answer) \<notin> set yes_answers then Cancelled
          else Ran (download_all_songs w (parse_list_file (Some content))
                      (ask_workers workers_line)))"

section \<open>Notions used in the statements\<close>

text \<open>The events of \<open>n\<close> failed attempts at a link: \<open>n\<close> requests with a pause of two
  seconds between one and the next.\<close>

fun attempts_trace :: "ustr \<Rightarrow> nat \<Rightarrow> event list" where
  "attempts_trace u 0 = []"
| "attempts_trace u (Suc 0) = [GetFile u]"
| "attempts_trace u (Suc (Suc n)) = GetFile u # Sleep 2000 # attempts_trace u (Suc n)"

definition fetch_fails :: "fetched \<Rightarrow> bool" where
  "fetch_fails r \<longleftrightarrow>
     (case r of FetchRaises \<Rightarrow> True | Fetched status h c b \<Rightarrow> status \<noteq> 200 \<and> status \<noteq> 206)"







text \<open>
  The answers of the link service after which \<open>get_song_url_v1\<close> goes on to its next
  attempt (\<open>retryable\<close>), and those with status 200, code 200 and a first entry without a
  link (\<open>link_missing\<close>). The same for the playlist service; and for the song service
  the answers that raise nothing (\<open>answered\<close>) and the songs that a batch adds
  (\<open>batch_songs\<close>).
\<close>

definition retryable :: "url_payload response \<Rightarrow> bool" where
  "retryable r \<longleftrightarrow>
     (case r of
        NoResponse \<Rightarrow> True
      | Response status body \<Rightarrow>
          status \<noteq> 200 \<or>
          (case body of None \<Rightarrow> True
           | Some data \<Rightarrow> up_code data \<noteq> Some 200 \<or> up_data data = []))"

definition link_missing :: "url_payload response \<Rightarrow> bool" where
  "link_missing r \<longleftrightarrow>
     (case r of
        NoResponse \<Rightarrow> False
      | Response status body \<Rightarrow>
          status = 200 \<and>
          (case body of None \<Rightarrow> False
           | Some data \<Rightarrow> up_code data = Some 200 \<and> up_data data \<noteq> []
               \<and> \<not> truthy (ue_url (hd (up_data data)))))"

fun is_url_request :: "event \<Rightarrow> bool" where
  "is_url_request (GetSongUrl i l) = True"
| "is_url_request e = False"

fun is_songs_request :: "event \<Rightarrow> bool" where
  "is_songs_request (PostSongs ids) = True"
| "is_songs_request e = False"

fun is_detail_request :: "event \<Rightarrow> bool" where
  "is_detail_request (PostDetail p) = True"
| "is_detail_request e = False"

definition batch_songs :: "songs_payload response \<Rightarrow> song_detail list" where
  "batch_songs r =
     (case r of
        NoResponse \<Rightarrow> []
      | Response status body \<Rightarrow>
          (case body of None \<Rightarrow> []
           | Some result \<Rightarrow>
               if status = 200 \<and> sp_code result = Some 200 then sp_songs result else []))"

definition answered :: "songs_payload response \<Rightarrow> bool" where
  "answered r \<longleftrightarrow>
     (case r of NoResponse \<Rightarrow> False | Response status body \<Rightarrow> status \<noteq> 200 \<or> body \<noteq> None)"

definition detail_retryable :: "detail_payload response \<Rightarrow> bool" where
  "detail_retryable r \<longleftrightarrow>
     (case r of
        NoResponse \<Rightarrow> True
      | Response status body \<Rightarrow>
          status \<noteq> 404 \<and> status \<noteq> 403 \<and>
          (status \<noteq> 200 \<or>
           (case body of None \<Rightarrow> True | Some data \<Rightarrow> dp_code data \<noteq> Some 200)))"


section \<open>Example data\<close>

text \<open>A song as \<open>process_playlist\<close> hands it to the writer, and the same song as the
  parser returns it from the first block of a manifest.\<close>

definition demo_info :: dict where
  "demo_info =
     [(''name'', StrV (asc ''Hello'')), (''artist'', StrV (asc ''Adele'')),
      (''url'', StrV (asc ''http://m.example/a.mp3'')), (''quality'', StrV (asc ''standard'')),
      (''bitrate'', IntV 128000), (''size'', IntV 4096), (''type'', StrV (asc ''mp3'')),
      (''song_id'', IntV 24381616)]"

definition demo_song :: dict where
  "demo_song =
     [(''index'', IntV 1), (''name'', StrV (asc ''Hello'')), (''artist'', StrV (asc ''Adele'')),
      (''song_id'', StrV (asc ''24381616'')), (''quality'', StrV (asc ''standard'')),
      (''bitrate'', IntV 128000), (''url'', StrV (asc ''http://m.example/a.mp3'')),
      (''size'', IntV 4096), (''type'', StrV (asc ''mp3''))]"

definition demo_header :: ustr where
  "demo_header = init_file (asc ''P'') (asc ''standard'') (asc ''2024-01-01 00:00:00'')"

definition demo_manifest :: ustr where
  "demo_manifest = append_song_to_file demo_info 1 demo_header"

text \<open>A song whose name has a hyphen.\<close>

definition hyphen_info :: dict where
  "hyphen_info =
     [(''name'', StrV (asc ''Anti-Hero'')), (''artist'', StrV (asc ''Taylor Swift'')),
      (''url'', StrV (asc ''http://m.example/a.mp3'')), (''quality'', StrV (asc ''standard'')),
      (''bitrate'', IntV 128000), (''size'', IntV 4096), (''type'', StrV (asc ''mp3'')),
      (''song_id'', IntV 24381616)]"

text \<open>A world in which the file of \<open>demo_song\<close> has the given size, if any, and every
  fetch brings the same answer.\<close>

definition demo_path :: ustr where
  "demo_path = asc ''downloads/001. Hello - Adele.mp3''"

definition demo_world :: "nat option \<Rightarrow> fetched \<Rightarrow> world" where
  "demo_world file_size answer =
     \<lparr>files = (\<lambda>p. if p = demo_path then file_size else None),
      can_open = (\<lambda>p. True),
      fetch = (\<lambda>u k. answer)\<rparr>"

text \<open>A link service whose first answer has no link and whose later answers have one.\<close>

definition no_link_entry :: url_entry where
  "no_link_entry = \<lparr>ue_url = None, ue_br = None, ue_size = None, ue_type = None\<rparr>"

definition link_entry :: url_entry where
  "link_entry = \<lparr>ue_url = Some (asc ''http://m.example/a.mp3''), ue_br = Some 128000,
     ue_size = Some 4096, ue_type = Some (asc ''mp3'')\<rparr>"

definition link_on_second :: "int \<Rightarrow> ustr \<Rightarrow> nat \<Rightarrow> url_payload response" where
  "link_on_second song_id quality_level attempt =
     (if attempt = 0 then Response 200 (Some \<lparr>up_code = Some 200, up_data = [no_link_entry]\<rparr>)
      else Response 200 (Some \<lparr>up_code = Some 200, up_data = [link_entry]\<rparr>))"

definition always_500 :: "int \<Rightarrow> ustr \<Rightarrow> nat \<Rightarrow> url_payload response" where
  "always_500 song_id quality_level attempt = Response 500 None"

text \<open>A song service that refuses every batch with the identifier 7001 in it and answers
  the others with one song for each identifier.\<close>

definition plain_song :: "int \<Rightarrow> song_detail" where
  "plain_song i = \<lparr>sd_id = i, sd_name = None, sd_artists = []\<rparr>"

definition refuse_first :: "int list \<Rightarrow> songs_payload response" where
  "refuse_first ids =
     (if 7001 \<in> set ids then Response 500 None
      else Response 200 (Some \<lparr>sp_code = Some 200, sp_songs = map plain_song ids\<rparr>))"

definition demo_ids :: "int list" where
  "demo_ids =
     [7001, 7002, 7003, 7004, 7005, 7006, 7007, 7008, 7009, 7010, 7011, 7012, 7013,
      7014, 7015, 7016, 7017, 7018, 7019, 7020, 7021, 7022, 7023, 7024, 7025, 7026,
      7027, 7028, 7029, 7030, 7031, 7032, 7033, 7034, 7035, 7036, 7037, 7038, 7039,
      7040, 7041, 7042, 7043, 7044, 7045, 7046, 7047, 7048, 7049, 7050, 7051, 7052]"

definition demo_playlist :: playlist where
  "demo_playlist = \<lparr>pl_name = Some (asc ''P''), track_ids = demo_ids\<rparr>"

definition demo_detail :: "detail_payload response" where
  "demo_detail = Response 200 (Some \<lparr>dp_code = Some 200, dp_playlist = Some demo_playlist\<rparr>)"

definition always_500_detail :: "nat \<Rightarrow> detail_payload response" where
  "always_500_detail attempt = Response 500 None"

section \<open>Properties\<close>

text \<open>Rules for evaluating the functions on literal texts.\<close>

lemma replicate_numeral: "replicate (numeral k) x = x # replicate (pred_numeral k) x"
  by (simp add: numeral_eq_Suc)

lemma upt_0_2: "[0..<2] = [0, Suc 0]"
  by (simp add: upt_rec)

lemma upt_0_3: "[0..<3] = [0, Suc 0, 2]"
  by (simp add: upt_rec)

text \<open>The digits among the characters below 1632, and a range without digits.\<close>

lemma digit_value_low:
  "c < 1632 \<Longrightarrow> digit_value c = (if 48 \<le> c \<and> c \<le> 57 then Some (c - 48) else None)"
  by (simp add: digit_value_def digit_zeros_def)

lemma digit_value_gap: "7258 \<le> c \<Longrightarrow> c < 42528 \<Longrightarrow> digit_value c = None"
  by (simp add: digit_value_def digit_zeros_def)

lemma is_digit_low: "c < 1632 \<Longrightarrow> is_digit c \<longleftrightarrow> 48 \<le> c \<and> c \<le> 57"
  by (simp add: is_digit_def digit_value_low)

lemma is_digit_gap: "7258 \<le> c \<Longrightarrow> c < 42528 \<Longrightarrow> \<not> is_digit c"
  by (simp add: is_digit_def digit_value_gap)

lemma is_digit_eval:
  "is_digit c =
     (if c < 1632 then 48 \<le> c \<and> c \<le> 57
      else if 7258 \<le> c \<and> c < 42528 then False
      else digit_value c \<noteq> None)"
  using is_digit_low [of c] is_digit_gap [of c] by (auto simp: is_digit_def)

lemma digit_value_eval:
  "digit_value c =
     (if c < 1632 then (if 48 \<le> c \<and> c \<le> 57 then Some (c - 48) else None)
      else if 7258 \<le> c \<and> c < 42528 then None
      else map_option (\<lambda>z. c - z) (find (\<lambda>z. z \<le> c \<and> c < z + 10) digit_zeros))"
  using digit_value_low [of c] digit_value_gap [of c] by (auto simp: digit_value_def)

lemmas is_digit_numeral = is_digit_eval [of "numeral k"] for k

lemmas digit_value_numeral = digit_value_eval [of "numeral k"] for k

lemmas text_eval = asc_def is_space_def int_space_def is_digit_numeral digit_value_numeral
  strip_def str_of_int_def int_max_str_digits_def
  digits_of_nat.simps nat_lit_def py_int_def getitem_def and_then_def replicate_numeral

lemmas manifest_eval = hdr_playlist_def hdr_quality_def hdr_time_def separator_def
  init_file_def note1_def note2_def note3_def note4_def unknown_def field_str_def get_or_def
  song_lines_def append_song_to_file_def lbl_song_id_def lbl_quality_def lbl_url_def
  lbl_size_def lbl_type_def

lemmas song_eval = song_filename_def and_then_def getitem_def zero_pad_def digits_of_nat.simps
  sanitize_filename_def re_sub_illegal_def illegal_chars_def asc_def replicate_numeral
  demo_song_def demo_info_def demo_path_def demo_world_def path_join_def download_dir_def

lemmas url_defs = extract_playlist_id_def urlparse_def split_scheme_def split_netloc_def
  split_params_def last_segment_def before_def after_def startswith_def asc_def is_alpha_def
  scheme_char_def lower_def uses_params_def parse_qs_def parse_field_def
  unquote_def plus_to_space_def Let_def

subsection \<open>File names\<close>

lemma length_sanitize_filename: "length (sanitize_filename s) \<le> 200"
  by (simp add: sanitize_filename_def Let_def)

lemma sanitize_filename_eq: "sanitize_filename s = take 200 (re_sub_illegal s)"
  by (simp add: sanitize_filename_def Let_def)

lemma re_sub_illegal_clean: "c \<in> set (re_sub_illegal s) \<Longrightarrow> c \<notin> set illegal_chars"
  by (auto simp: re_sub_illegal_def illegal_chars_def)

lemma sanitize_filename_clean: "c \<in> set (sanitize_filename s) \<Longrightarrow> c \<notin> set illegal_chars"
  unfolding sanitize_filename_eq by (blast dest: in_set_takeD re_sub_illegal_clean)

lemma song_filename_sanitized:
  "song_filename song = Inr f \<Longrightarrow> \<exists>raw. f = sanitize_filename raw"
  by (auto simp: song_filename_def and_then_def split: sum.splits)

lemma set_illegal_chars: "set illegal_chars = {60, 62, 58, 34, 47, 92, 124, 63, 42}"
  by (simp add: illegal_chars_def)

text \<open>
  C5. \<open>sanitize_filename\<close> replaces each of the characters \<open>< > : " / \ | ? *\<close> (the code
  points 60, 62, 58, 34, 47, 92, 124, 63 and 42) by an underscore (95), leaves every
  other character as it is, and returns at most 200 characters; so a file name that
  \<open>download_song\<close> builds from index, name, artist and extension has at most 200
  characters and none of those nine.
\<close>

theorem sanitize_filename_bounded_clean:
  "sanitize_filename s
     = take 200 (map (\<lambda>c. if c \<in> {60, 62, 58, 34, 47, 92, 124, 63, 42} then 95 else c) s)
   \<and> length (sanitize_filename s) \<le> 200
   \<and> set (sanitize_filename s) \<inter> {60, 62, 58, 34, 47, 92, 124, 63, 42} = {}
   \<and> (song_filename song = Inr f \<longrightarrow>
        length f \<le> 200 \<and> set f \<inter> {60, 62, 58, 34, 47, 92, 124, 63, 42} = {})"
proof (intro conjI impI)
  show "sanitize_filename s
      = take 200 (map (\<lambda>c. if c \<in> {60, 62, 58, 34, 47, 92, 124, 63, 42} then 95 else c) s)"
    using sanitize_filename_eq [of s] set_illegal_chars by (simp add: re_sub_illegal_def)
  show "length (sanitize_filename s) \<le> 200"
    by (rule length_sanitize_filename)
  show "set (sanitize_filename s) \<inter> {60, 62, 58, 34, 47, 92, 124, 63, 42} = {}"
    using sanitize_filename_clean [of _ s] unfolding set_illegal_chars by blast
next
  assume "song_filename song = Inr f"
  then obtain raw where f: "f = sanitize_filename raw"
    using song_filename_sanitized by blast
  show "length f \<le> 200"
    unfolding f by (rule length_sanitize_filename)
  show "set f \<inter> {60, 62, 58, 34, 47, 92, 124, 63, 42} = {}"
    unfolding f using sanitize_filename_clean [of _ raw] unfolding set_illegal_chars by blast
qed

text \<open>An instance: the name built for a song whose name and artist hold a slash and a
  colon.\<close>

lemma song_filename_example:
  "song_filename [(''index'', IntV 7), (''name'', StrV (asc ''a/b'')),
       (''artist'', StrV (asc ''c:d'')), (''type'', StrV (asc ''mp3''))]
     = Inr (asc ''007. a_b - c_d.mp3'')"
  by (simp add: song_filename_def and_then_def getitem_def digits_of_nat.simps zero_pad_def
      sanitize_filename_def re_sub_illegal_def illegal_chars_def asc_def replicate_numeral)

theorem sanitize_filename_bounded_clean_witness:
  "song_filename [(''index'', IntV 7), (''name'', StrV (asc ''a/b'')),
       (''artist'', StrV (asc ''c:d'')), (''type'', StrV (asc ''mp3''))]
     = Inr (asc ''007. a_b - c_d.mp3'')
   \<and> length (asc ''007. a_b - c_d.mp3'') \<le> 200
   \<and> set (asc ''007. a_b - c_d.mp3'') \<inter> {60, 62, 58, 34, 47, 92, 124, 63, 42} = {}"
  using sanitize_filename_bounded_clean
    [of "[]" "[(''index'', IntV 7), (''name'', StrV (asc ''a/b'')),
       (''artist'', StrV (asc ''c:d'')), (''type'', StrV (asc ''mp3''))]"
       "asc ''007. a_b - c_d.mp3''"]
    song_filename_example
  by blast

subsection \<open>The playlist identifier\<close>

lemma extract_playlist_id_bare:
  "\<not> contains s (asc ''playlist'') \<Longrightarrow> extract_playlist_id dec s = Some s"
  by (simp add: extract_playlist_id_def)

lemma extract_playlist_id_query_url:
  "extract_playlist_id dec (asc ''https://music.163.com/playlist?id=24381616'')
     = Some (asc ''24381616'')"
  by (simp add: url_defs)

lemma extract_playlist_id_path_url:
  "extract_playlist_id dec (asc ''https://music.163.com/playlist/24381616'')
     = Some (asc ''24381616'')"
  by (simp add: url_defs)

lemma urlparse_example:
  "urlparse (asc ''https://music.163.com/#/playlist?id=24381616'')
    = Inr \<lparr>scheme = asc ''https'', netloc = asc ''music.163.com'', path = asc ''/'', params = [],
           query = [], fragment = asc ''/playlist?id=24381616''\<rparr>"
  by (simp add: url_defs)

text \<open>
  C1. The claim: for every playlist URL of the supported shapes, the documented example
  \<open>https://music.163.com/#/playlist?id=24381616\<close> among them, \<open>extract_playlist_id\<close>
  returns the identifier that it returns for the bare identifier. On the code the bare
  identifier \<open>24381616\<close> is returned as it is, but for the documented example the result
  is \<open>None\<close>: \<open>urlparse\<close> puts everything after \<open>#\<close> into the fragment, so the query is
  empty, the path is \<open>/\<close>, and no segment follows a segment \<open>playlist\<close>.
\<close>

theorem extract_playlist_id_documented_example:
  "extract_playlist_id dec (asc ''https://music.163.com/#/playlist?id=24381616'') = None
   \<and> extract_playlist_id dec (asc ''24381616'') = Some (asc ''24381616'')"
  by (simp add: url_defs)

subsection \<open>Writing and parsing the manifest\<close>

text \<open>The search for the next block passes every character that is not a digit.\<close>

lemma findall_skip:
  "\<not> is_digit x \<Longrightarrow> findall (Grp Plus Digit # p) (x # xs) = findall (Grp Plus Digit # p) xs"
  by simp

lemma findall_digit:
  "is_digit x \<Longrightarrow> findall (Grp Plus Digit # p) (x # xs) =
     (case rmatch (Grp Plus Digit # p) (x # xs) of
        None \<Rightarrow> findall (Grp Plus Digit # p) xs
      | Some (gs, r) \<Rightarrow>
          if length r < length (x # xs) then gs # findall (Grp Plus Digit # p) r
          else gs # findall (Grp Plus Digit # p) xs)"
  by simp

lemmas parse_eval = lits_def song_pattern_def song_of_match_def parse_list_file_def
  findall_skip findall_digit

text \<open>A manifest with one block for \<open>demo_info\<close> is parsed back to \<open>demo_song\<close>.\<close>

lemma parse_demo_manifest: "parse_list_file (Some demo_manifest) = [demo_song]"
  by (simp add: demo_manifest_def demo_header_def demo_info_def demo_song_def
      text_eval manifest_eval parse_eval del: findall.simps(2))

text \<open>
  C2. The claim: writing the header with \<open>init_file\<close> and appending records with
  \<open>append_song_to_file\<close> gives a file from which \<open>parse_list_file\<close> recovers the
  records with the fields that were written. On the code the song \<open>Anti-Hero\<close> by
  \<open>Taylor Swift\<close>, written as the only block, comes back with the name \<open>Anti\<close> and the
  artist \<open>Hero - Taylor Swift\<close>: the pattern ends the name at the first hyphen of the
  line.
\<close>

theorem parse_list_file_hyphen_name:
  "parse_list_file (Some (append_song_to_file hyphen_info 1 demo_header))
     = [[(''index'', IntV 1), (''name'', StrV (asc ''Anti'')),
         (''artist'', StrV (asc ''Hero - Taylor Swift'')),
         (''song_id'', StrV (asc ''24381616'')), (''quality'', StrV (asc ''standard'')),
         (''bitrate'', IntV 128000), (''url'', StrV (asc ''http://m.example/a.mp3'')),
         (''size'', IntV 4096), (''type'', StrV (asc ''mp3''))]]"
  by (simp add: demo_header_def hyphen_info_def
      text_eval manifest_eval parse_eval del: findall.simps(2))

subsection \<open>The summary footer\<close>

lemma concat_readlines: "concat (readlines s) = s"
  by (induction s) (auto split: list.splits)

lemma readlines_nl_nonempty: "readlines (a @ [10]) \<noteq> []"
  by (induction a) (auto split: list.splits)

lemma readlines_append_nl: "readlines (a @ [10] @ b) = readlines (a @ [10]) @ readlines b"
  using readlines_nl_nonempty by (induction a) (auto split: list.splits)

lemma find_header_end_found:
  "startswith l separator \<Longrightarrow> find_header_end i (xs @ l # l' # ys) \<le> i + length xs + 2"
proof (induction xs arbitrary: i)
  case Nil
  then show ?case by simp
next
  case (Cons x xs)
  then show ?case using Cons.IH[of "Suc i"] by auto
qed

lemma written_append_Inr: "written (map Inr ls @ rs) = concat ls @ written rs"
  by (induction ls) auto

lemma update_file_summary_in_range:
  assumes "find_header_end 0 (readlines content) \<le> length (readlines content)"
  shows "update_file_summary total_count now content = content @ footer total_count now"
proof -
  let ?ls = "readlines content" and ?h = "find_header_end 0 (readlines content)"
  have "map (line_at ?ls) [0..<?h] = map Inr (take ?h ?ls)"
    using assms by (auto simp: line_at_def list_eq_iff_nth_eq)
  then have "update_file_summary total_count now content
      = concat (take ?h ?ls) @ concat (drop ?h ?ls) @ footer total_count now"
    by (simp add: update_file_summary_def Let_def written_append_Inr)
  also have "\<dots> = concat ?ls @ footer total_count now"
    by (metis append_assoc append_take_drop_id concat_append)
  finally show ?thesis by (simp add: concat_readlines)
qed

lemma startswith_separator: "startswith (separator @ t) separator"
  by (simp add: startswith_def)

lemma readlines_line: "10 \<notin> set l \<Longrightarrow> readlines (l @ [10]) = [l @ [10]]"
  by (induction l) (auto split: list.splits)

lemma separator_no_nl: "10 \<notin> set separator"
  by (simp add: separator_def)

lemma update_file_summary_after_header:
  "update_file_summary total_count finished (init_file playlist_name quality_level started @ blocks)
     = (init_file playlist_name quality_level started @ blocks) @ footer total_count finished"
proof -
  define hd3 where "hd3 = hdr_playlist @ playlist_name @ [10] @ hdr_quality @ quality_level @ [10] @ hdr_time @ started"
  have c: "init_file playlist_name quality_level started @ blocks
      = hd3 @ [10] @ (separator @ [10]) @ [10] @ blocks"
    by (simp add: init_file_def hd3_def)
  have "readlines (hd3 @ [10] @ (separator @ [10]) @ [10] @ blocks)
      = readlines (hd3 @ [10]) @ readlines (separator @ [10] @ ([] @ [10] @ blocks))"
    using readlines_append_nl[of hd3 "(separator @ [10]) @ [10] @ blocks"] by simp
  also have "readlines (separator @ [10] @ ([] @ [10] @ blocks))
      = readlines (separator @ [10]) @ readlines ([] @ [10] @ blocks)"
    using readlines_append_nl[of separator "[] @ [10] @ blocks"] by simp
  also have "readlines (separator @ [10]) = [separator @ [10]]"
    by (rule readlines_line[OF separator_no_nl])
  also have "readlines ([] @ [10] @ blocks) = [10] # readlines blocks"
    by simp
  finally have ls: "readlines (init_file playlist_name quality_level started @ blocks)
      = readlines (hd3 @ [10]) @ (separator @ [10]) # [10] # readlines blocks"
    using c by simp
  have "find_header_end 0 (readlines (init_file playlist_name quality_level started @ blocks))
      \<le> length (readlines (hd3 @ [10])) + 2"
    unfolding ls using find_header_end_found[OF startswith_separator, where i = 0 and l' = "[10]"] by simp
  also have "\<dots> \<le> length (readlines (init_file playlist_name quality_level started @ blocks))"
    unfolding ls by simp
  finally show ?thesis by (rule update_file_summary_in_range)
qed

lemma fst_emit: "fst (emit es r) = fst r"
  by (simp add: emit_def)

lemma process_songs_appends:
  "\<exists>blocks. fst (fst (process_songs api lvl i songs (content, n))) = content @ blocks"
proof (induction songs arbitrary: i content n)
  case Nil
  then show ?case by simp
next
  case (Cons song rest)
  obtain r ev where g: "get_song_url_v1 api (sd_id song) lvl = (r, ev)"
    by (cases "get_song_url_v1 api (sd_id song) lvl") auto
  show ?case
  proof (cases r)
    case None
    then show ?thesis using Cons[of "i + 1" content n] g by (simp add: fst_emit)
  next
    case (Some info)
    obtain blocks where
      "fst (fst (process_songs api lvl (i + 1) rest
          (append_song_to_file (song_info song info lvl) i content, n + 1)))
        = append_song_to_file (song_info song info lvl) i content @ blocks"
      using Cons[of "i + 1" "append_song_to_file (song_info song info lvl) i content" "n + 1"]
      by blast
    then show ?thesis using g Some by (simp add: fst_emit append_song_to_file_def)
  qed
qed

text \<open>
  C8. A manifest is the header that \<open>init_file\<close> wrote followed by what was appended to
  it since; the content that the loop of \<open>process_playlist\<close> leaves is one. For every
  such content \<open>update_file_summary\<close> leaves the file with that content, unchanged and
  in order, followed by the footer: an empty line, the line of equals signs, the title,
  the count and the time of completion.
\<close>

theorem update_file_summary_keeps_manifest:
  "update_file_summary total_count finished
       (init_file playlist_name quality_level started @ blocks)
     = (init_file playlist_name quality_level started @ blocks) @ footer total_count finished
   \<and> update_file_summary total_count finished
         (fst (fst (process_songs api quality_level i songs
                      (init_file playlist_name quality_level started, n))))
     = fst (fst (process_songs api quality_level i songs
                   (init_file playlist_name quality_level started, n)))
       @ footer total_count finished"
  using process_songs_appends
      [of api quality_level i songs "init_file playlist_name quality_level started" n]
    update_file_summary_after_header
  by metis

subsection \<open>The link of a song\<close>

lemma url_loop_requests: "length (filter is_url_request (snd (url_loop api sid lvl as))) \<le> length as"
proof (induction as)
  case Nil
  then show ?case by simp
next
  case (Cons a as)
  then show ?case
    by (auto simp: emit_def retry_or_stop_def split: response.splits option.splits)
qed

lemma url_loop_retryable:
  assumes "retryable (api sid lvl k)"
  shows "url_loop api sid lvl (k # rest)
     = emit [RandomSleep, GetSongUrl sid lvl]
         (retry_or_stop (k < 1) 500 (url_loop api sid lvl rest))"
  using assms by (auto simp: retryable_def split: response.splits option.splits)

lemma url_first_failure:
  assumes "retryable (api sid lvl 0)"
  shows "get_song_url_v1 api sid lvl
     = emit [RandomSleep, GetSongUrl sid lvl, Sleep 500] (url_loop api sid lvl [1])"
  using assms
  by (simp add: get_song_url_v1_def upt_0_2 url_loop_retryable emit_def retry_or_stop_def
      del: url_loop.simps(2))

lemma url_two_failures:
  assumes "retryable (api sid lvl 0)" and "retryable (api sid lvl 1)"
  shows "get_song_url_v1 api sid lvl
     = (None, [RandomSleep, GetSongUrl sid lvl, Sleep 500, RandomSleep, GetSongUrl sid lvl])"
  using assms
  by (simp add: get_song_url_v1_def upt_0_2 url_loop_retryable emit_def retry_or_stop_def
      del: url_loop.simps(2))

lemma url_link_missing:
  assumes "link_missing (api sid lvl 0)"
  shows "get_song_url_v1 api sid lvl = (None, [RandomSleep, GetSongUrl sid lvl])"
  using assms
  by (auto simp: get_song_url_v1_def upt_0_2 link_missing_def emit_def
      split: response.splits option.splits)

lemma process_songs_skips:
  assumes "fst (get_song_url_v1 api (sd_id song) lvl) = None"
  shows "process_songs api lvl i (song # rest) st
     = emit (snd (get_song_url_v1 api (sd_id song) lvl) @ [Sleep 500])
         (process_songs api lvl (i + 1) rest st)"
  using assms by (cases "get_song_url_v1 api (sd_id song) lvl") auto

text \<open>
  C6, as amended. \<open>get_song_url_v1\<close> sends at most two requests. After a first answer
  that fails (the request raises, the status is not 200, the body cannot be read, the
  code is not 200 or the data are empty) it pauses half a second and tries once more;
  when the second answer fails as well it returns \<open>None\<close>. A first answer with status
  200, code 200 and a first entry whose link is missing or empty makes it return \<open>None\<close>
  at once, without a second request. When it returns \<open>None\<close>, the loop of
  \<open>process_playlist\<close> leaves the manifest and the count as they are and goes on with
  the next song.
\<close>

theorem get_song_url_v1_two_attempts:
  "length (filter is_url_request (snd (get_song_url_v1 api song_id level))) \<le> 2
   \<and> (retryable (api song_id level 0) \<longrightarrow>
        get_song_url_v1 api song_id level
          = emit [RandomSleep, GetSongUrl song_id level, Sleep 500]
              (url_loop api song_id level [1]))
   \<and> (retryable (api song_id level 0) \<and> retryable (api song_id level 1) \<longrightarrow>
        get_song_url_v1 api song_id level
          = (None, [RandomSleep, GetSongUrl song_id level, Sleep 500,
                    RandomSleep, GetSongUrl song_id level]))
   \<and> (link_missing (api song_id level 0) \<longrightarrow>
        get_song_url_v1 api song_id level = (None, [RandomSleep, GetSongUrl song_id level]))
   \<and> (fst (get_song_url_v1 api (sd_id song) level) = None \<longrightarrow>
        process_songs api level i (song # rest) st
          = emit (snd (get_song_url_v1 api (sd_id song) level) @ [Sleep 500])
              (process_songs api level (i + 1) rest st))"
proof (intro conjI impI)
  show "length (filter is_url_request (snd (get_song_url_v1 api song_id level))) \<le> 2"
    using url_loop_requests[of api song_id level "[0..<2]"] by (simp add: get_song_url_v1_def)
  show "get_song_url_v1 api song_id level
          = emit [RandomSleep, GetSongUrl song_id level, Sleep 500]
              (url_loop api song_id level [1])"
    if "retryable (api song_id level 0)"
    using that by (rule url_first_failure)
  show "get_song_url_v1 api song_id level
          = (None, [RandomSleep, GetSongUrl song_id level, Sleep 500,
                    RandomSleep, GetSongUrl song_id level])"
    if "retryable (api song_id level 0) \<and> retryable (api song_id level 1)"
    using that url_two_failures by blast
  show "get_song_url_v1 api song_id level = (None, [RandomSleep, GetSongUrl song_id level])"
    if "link_missing (api song_id level 0)"
    using that by (rule url_link_missing)
  show "process_songs api level i (song # rest) st
          = emit (snd (get_song_url_v1 api (sd_id song) level) @ [Sleep 500])
              (process_songs api level (i + 1) rest st)"
    if "fst (get_song_url_v1 api (sd_id song) level) = None"
    using that by (rule process_songs_skips)
qed

(* C7 *)

text \<open>
  The claim as stated fails: it has the function retry when the answer carries no link.
  Here the first answer has an entry without a link and the second one would have had a
  link; the function returns \<open>None\<close> after the first request.
\<close>

theorem get_song_url_v1_no_retry_counterexample:
  "link_on_second 24381616 (asc ''standard'') 0
     = Response 200 (Some \<lparr>up_code = Some 200, up_data = [no_link_entry]\<rparr>)
   \<and> ue_url no_link_entry = None
   \<and> get_song_url_v1 link_on_second 24381616 (asc ''standard'')
       = (None, [RandomSleep, GetSongUrl 24381616 (asc ''standard'')])
   \<and> url_loop link_on_second 24381616 (asc ''standard'') [1]
       = (Some (url_info_of link_entry (asc ''standard'') 24381616),
          [RandomSleep, GetSongUrl 24381616 (asc ''standard'')])"
  by (simp add: get_song_url_v1_def upt_0_2 link_on_second_def no_link_entry_def link_entry_def
      truthy_def emit_def asc_def)

lemma link_on_second_missing: "link_missing (link_on_second i l 0)"
  by (simp add: link_missing_def link_on_second_def no_link_entry_def truthy_def)

lemma always_500_retryable: "retryable (always_500 i l k)"
  by (simp add: retryable_def always_500_def)

theorem get_song_url_v1_two_attempts_witness:
  "retryable (always_500 7 (asc ''standard'') 0)
   \<and> retryable (always_500 7 (asc ''standard'') 1)
   \<and> get_song_url_v1 always_500 7 (asc ''standard'')
       = (None, [RandomSleep, GetSongUrl 7 (asc ''standard''), Sleep 500,
                 RandomSleep, GetSongUrl 7 (asc ''standard'')])
   \<and> link_missing (link_on_second 7 (asc ''standard'') 0)
   \<and> get_song_url_v1 link_on_second 7 (asc ''standard'')
       = (None, [RandomSleep, GetSongUrl 7 (asc ''standard'')])
   \<and> process_songs always_500 (asc ''standard'') 1 [plain_song 7] (demo_header, 0)
       = ((demo_header, 0),
          [RandomSleep, GetSongUrl 7 (asc ''standard''), Sleep 500,
           RandomSleep, GetSongUrl 7 (asc ''standard''), Sleep 500])"
proof -
  have a: "get_song_url_v1 always_500 7 (asc ''standard'')
       = (None, [RandomSleep, GetSongUrl 7 (asc ''standard''), Sleep 500,
                 RandomSleep, GetSongUrl 7 (asc ''standard'')])"
    using get_song_url_v1_two_attempts [of always_500 7 "asc ''standard''"] always_500_retryable
    by blast
  have b: "get_song_url_v1 link_on_second 7 (asc ''standard'')
       = (None, [RandomSleep, GetSongUrl 7 (asc ''standard'')])"
    using get_song_url_v1_two_attempts [of link_on_second 7 "asc ''standard''"]
      link_on_second_missing by blast
  have "fst (get_song_url_v1 always_500 (sd_id (plain_song 7)) (asc ''standard'')) = None"
    using a by (simp add: plain_song_def)
  then have "process_songs always_500 (asc ''standard'') 1 [plain_song 7] (demo_header, 0)
       = emit (snd (get_song_url_v1 always_500 (sd_id (plain_song 7)) (asc ''standard''))
               @ [Sleep 500])
           (process_songs always_500 (asc ''standard'') (1 + 1) [] (demo_header, 0))"
    using get_song_url_v1_two_attempts
      [of always_500 7 "asc ''standard''" "plain_song 7" 1 "[]" "(demo_header, 0)"]
    by blast
  then have c: "process_songs always_500 (asc ''standard'') 1 [plain_song 7] (demo_header, 0)
       = ((demo_header, 0),
          [RandomSleep, GetSongUrl 7 (asc ''standard''), Sleep 500,
           RandomSleep, GetSongUrl 7 (asc ''standard''), Sleep 500])"
    using a by (simp add: plain_song_def emit_def)
  show ?thesis
    using a b c always_500_retryable link_on_second_missing by simp
qed

subsection \<open>The details of the songs, batch by batch\<close>

lemma concat_batches: "concat (batches n xs) = (if n = 0 then [] else xs)"
proof (induction n xs rule: batches.induct)
  case (1 n xs)
  show ?case
  proof (cases "xs = [] \<or> n = 0")
    case True
    then show ?thesis by (auto simp: batches.simps)
  next
    case False
    then show ?thesis using 1 by (subst batches.simps) simp
  qed
qed

lemma length_batches: "b \<in> set (batches n xs) \<Longrightarrow> 0 < length b \<and> length b \<le> n"
proof (induction n xs rule: batches.induct)
  case (1 n xs)
  show ?case
  proof (cases "xs = [] \<or> n = 0")
    case True
    then show ?thesis using 1(2) by (simp add: batches.simps)
  next
    case False
    then have "b = take n xs \<or> b \<in> set (batches n (drop n xs))"
      using 1(2) by (subst (asm) batches.simps) simp
    then show ?thesis using 1(1) False by auto
  qed
qed

lemma full_batches: "b \<in> set (butlast (batches n xs)) \<Longrightarrow> length b = n"
proof (induction n xs rule: batches.induct)
  case (1 n xs)
  show ?case
  proof (cases "xs = [] \<or> n = 0")
    case True
    then show ?thesis using 1(2) by (simp add: batches.simps)
  next
    case False
    have b: "batches n xs = take n xs # batches n (drop n xs)"
      using False by (subst batches.simps) simp
    show ?thesis
    proof (cases "batches n (drop n xs) = []")
      case True
      then show ?thesis using 1(2) b by simp
    next
      case ne: False
      then have "drop n xs \<noteq> []" by (auto simp: batches.simps)
      then have "length (take n xs) = n" by simp
      moreover have "b = take n xs \<or> b \<in> set (butlast (batches n (drop n xs)))"
        using 1(2) b ne by simp
      ultimately show ?thesis using 1(1) False by blast
    qed
  qed
qed

lemma songs_loop_answered:
  "\<forall>b \<in> set bs. answered (api b) \<Longrightarrow>
     fst (songs_loop api bs acc) = Inr (acc @ concat (map (\<lambda>b. batch_songs (api b)) bs))
     \<and> filter is_songs_request (snd (songs_loop api bs acc)) = map PostSongs bs"
proof (induction bs arbitrary: acc)
  case Nil
  then show ?case by simp
next
  case (Cons b bs)
  then have ih: "\<And>acc. fst (songs_loop api bs acc) = Inr (acc @ concat (map (\<lambda>b. batch_songs (api b)) bs))
     \<and> filter is_songs_request (snd (songs_loop api bs acc)) = map PostSongs bs"
    by simp
  from Cons.prems have a: "answered (api b)" by simp
  show ?case
  proof (cases "api b")
    case NoResponse
    then show ?thesis using a by (simp add: answered_def)
  next
    case (Response status body)
    then show ?thesis using a ih
      by (cases body) (auto simp: answered_def batch_songs_def emit_def)
  qed
qed

lemma get_playlist_tracks_answered:
  assumes "detail = Response 200 (Some \<lparr>dp_code = Some 200, dp_playlist = Some pl\<rparr>)"
      and "track_ids pl \<noteq> []"
      and "\<forall>b \<in> set (batches batch_size (track_ids pl)). answered (api b)"
  shows "fst (get_playlist_tracks detail api pid)
           = concat (map (\<lambda>b. batch_songs (api b)) (batches batch_size (track_ids pl)))
       \<and> filter is_songs_request (snd (get_playlist_tracks detail api pid))
           = map PostSongs (batches batch_size (track_ids pl))
       \<and> filter is_detail_request (snd (get_playlist_tracks detail api pid)) = [PostDetail pid]"
proof -
  obtain r ev where sl: "songs_loop api (batches batch_size (track_ids pl)) [] = (r, ev)"
    by (cases "songs_loop api (batches batch_size (track_ids pl)) []") auto
  have r: "r = Inr (concat (map (\<lambda>b. batch_songs (api b)) (batches batch_size (track_ids pl))))"
    and ev: "filter is_songs_request ev = map PostSongs (batches batch_size (track_ids pl))"
    using songs_loop_answered[OF assms(3), of "[]"] sl by simp_all
  have nd: "filter is_detail_request (snd (songs_loop api bs acc)) = []" for bs acc
    by (induction bs arbitrary: acc) (auto simp: emit_def split: response.splits option.splits)
  then have "filter is_detail_request ev = []"
    using sl by (metis snd_conv)
  then show ?thesis
    using assms(1,2) sl r ev by (simp add: get_playlist_tracks_def emit_def)
qed

lemma detail_three_failures:
  assumes "detail_retryable (api 0)" and "detail_retryable (api 1)" and "detail_retryable (api 2)"
  shows "get_playlist_detail api pid
     = (None, [PostDetail pid, Sleep 3000, PostDetail pid, Sleep 3000, PostDetail pid])"
proof -
  have step: "detail_loop api pid (k # rest)
      = emit [PostDetail pid] (retry_or_stop (k < 2) 3000 (detail_loop api pid rest))"
    if "detail_retryable (api k)" for k rest
    using that by (auto simp: detail_retryable_def split: response.splits option.splits)
  have "detail_loop api pid [0, Suc 0, 2]
      = (None, [PostDetail pid, Sleep 3000, PostDetail pid, Sleep 3000, PostDetail pid])"
    using assms by (simp add: step emit_def retry_or_stop_def del: detail_loop.simps(2))
  then show ?thesis by (simp add: get_playlist_detail_def upt_0_3)
qed

lemma detail_loop_events:
  "length (filter is_detail_request (snd (detail_loop api pid as))) \<le> length as
   \<and> set (snd (detail_loop api pid as)) \<subseteq> {PostDetail pid, Sleep 3000}"
proof (induction as)
  case Nil
  then show ?case by simp
next
  case (Cons a as)
  have e: "length (filter is_detail_request (snd (emit [PostDetail pid] x))) 
            = Suc (length (filter is_detail_request (snd x)))"
       "set (snd (emit [PostDetail pid] x)) = insert (PostDetail pid) (set (snd x))" for x :: "playlist option \<times> event list"
    by (simp_all add: emit_def)
  have r: "length (filter is_detail_request (snd (retry_or_stop c 3000 (detail_loop api pid as)))) \<le> length as
      \<and> set (snd (retry_or_stop c 3000 (detail_loop api pid as))) \<subseteq> {PostDetail pid, Sleep 3000}" for c
    using Cons by (auto simp: retry_or_stop_def emit_def)
  show ?case
    apply (simp only: detail_loop.simps e)
    using r by (auto split: response.splits option.splits)
qed

text \<open>
  C7. The identifiers are cut into batches of 50 (the last one may be shorter), each
  batch is requested exactly once, and when no request raises the result is the songs of
  the batches answered with status 200 and code 200, in order: a batch with another
  status or code adds nothing and the loop goes on with the next batch.
  \<open>get_playlist_tracks\<close> asks for the playlist once. \<open>get_playlist_detail\<close> is the step
  that retries: it sends at most three requests, pauses three seconds before each
  further one, and returns \<open>None\<close> after three failures.
\<close>

theorem failed_batch_dropped_not_retried:
  "concat (batches batch_size ids) = ids
   \<and> (\<forall>b \<in> set (batches batch_size ids). 0 < length b \<and> length b \<le> 50)
   \<and> (\<forall>b \<in> set (butlast (batches batch_size ids)). length b = 50)
   \<and> ((\<forall>b \<in> set bs. answered (api b)) \<longrightarrow>
        fst (songs_loop api bs acc) = Inr (acc @ concat (map (\<lambda>b. batch_songs (api b)) bs))
        \<and> filter is_songs_request (snd (songs_loop api bs acc)) = map PostSongs bs)
   \<and> (detail = Response 200 (Some \<lparr>dp_code = Some 200, dp_playlist = Some pl\<rparr>)
        \<and> track_ids pl \<noteq> []
        \<and> (\<forall>b \<in> set (batches batch_size (track_ids pl)). answered (api b)) \<longrightarrow>
        fst (get_playlist_tracks detail api playlist_id)
          = concat (map (\<lambda>b. batch_songs (api b)) (batches batch_size (track_ids pl)))
        \<and> filter is_songs_request (snd (get_playlist_tracks detail api playlist_id))
          = map PostSongs (batches batch_size (track_ids pl))
        \<and> filter is_detail_request (snd (get_playlist_tracks detail api playlist_id))
          = [PostDetail playlist_id])
   \<and> (detail_retryable (dapi 0) \<and> detail_retryable (dapi 1) \<and> detail_retryable (dapi 2) \<longrightarrow>
        get_playlist_detail dapi playlist_id
          = (None, [PostDetail playlist_id, Sleep 3000, PostDetail playlist_id, Sleep 3000,
                    PostDetail playlist_id]))
   \<and> length (filter is_detail_request (snd (get_playlist_detail dapi playlist_id))) \<le> 3
   \<and> set (snd (get_playlist_detail dapi playlist_id)) \<subseteq> {PostDetail playlist_id, Sleep 3000}"
proof (intro conjI impI)
  show "concat (batches batch_size ids) = ids"
    by (simp add: concat_batches batch_size_def)
  show "\<forall>b \<in> set (batches batch_size ids). 0 < length b \<and> length b \<le> 50"
    using length_batches[of _ batch_size ids] by (simp add: batch_size_def)
  show "\<forall>b \<in> set (butlast (batches batch_size ids)). length b = 50"
    using full_batches[of _ batch_size ids] by (simp add: batch_size_def)
  show "fst (songs_loop api bs acc) = Inr (acc @ concat (map (\<lambda>b. batch_songs (api b)) bs))"
    and "filter is_songs_request (snd (songs_loop api bs acc)) = map PostSongs bs"
    if "\<forall>b \<in> set bs. answered (api b)"
    using songs_loop_answered[OF that] by simp_all
  assume a: "detail = Response 200 (Some \<lparr>dp_code = Some 200, dp_playlist = Some pl\<rparr>)
        \<and> track_ids pl \<noteq> []
        \<and> (\<forall>b \<in> set (batches batch_size (track_ids pl)). answered (api b))"
  show "fst (get_playlist_tracks detail api playlist_id)
          = concat (map (\<lambda>b. batch_songs (api b)) (batches batch_size (track_ids pl)))"
    and "filter is_songs_request (snd (get_playlist_tracks detail api playlist_id))
          = map PostSongs (batches batch_size (track_ids pl))"
    and "filter is_detail_request (snd (get_playlist_tracks detail api playlist_id))
          = [PostDetail playlist_id]"
    using get_playlist_tracks_answered[of detail pl api playlist_id] a by simp_all
next
  assume "detail_retryable (dapi 0) \<and> detail_retryable (dapi 1) \<and> detail_retryable (dapi 2)"
  then show "get_playlist_detail dapi playlist_id
          = (None, [PostDetail playlist_id, Sleep 3000, PostDetail playlist_id, Sleep 3000,
                    PostDetail playlist_id])"
    using detail_three_failures by blast
next
  show "length (filter is_detail_request (snd (get_playlist_detail dapi playlist_id))) \<le> 3"
    using detail_loop_events[of dapi playlist_id "[0..<3]"] by (simp add: get_playlist_detail_def)
  show "set (snd (get_playlist_detail dapi playlist_id)) \<subseteq> {PostDetail playlist_id, Sleep 3000}"
    using detail_loop_events[of dapi playlist_id "[0..<3]"] by (simp add: get_playlist_detail_def)
qed

text \<open>An instance: 52 identifiers, the first batch refused with status 500.\<close>

lemma demo_batches: "batches batch_size demo_ids = [take 50 demo_ids, [7051, 7052]]"
  by (simp add: demo_ids_def batches.simps batch_size_def)

lemma refuse_first_answered: "answered (refuse_first ids)"
  by (simp add: answered_def refuse_first_def)

theorem failed_batch_dropped_not_retried_witness:
  "batches batch_size demo_ids = [take 50 demo_ids, [7051, 7052]]
   \<and> refuse_first (take 50 demo_ids) = Response 500 None
   \<and> fst (get_playlist_tracks demo_detail refuse_first (asc ''24381616''))
       = [plain_song 7051, plain_song 7052]
   \<and> filter is_songs_request (snd (get_playlist_tracks demo_detail refuse_first (asc ''24381616'')))
       = [PostSongs (take 50 demo_ids), PostSongs [7051, 7052]]
   \<and> detail_retryable (always_500_detail 0)
   \<and> get_playlist_detail always_500_detail (asc ''24381616'')
       = (None, [PostDetail (asc ''24381616''), Sleep 3000, PostDetail (asc ''24381616''),
                 Sleep 3000, PostDetail (asc ''24381616'')])"
proof -
  have r: "refuse_first (take 50 demo_ids) = Response 500 None"
    by (simp add: refuse_first_def demo_ids_def)
  have s: "batch_songs (refuse_first (take 50 demo_ids)) = []"
    "batch_songs (refuse_first [7051, 7052]) = [plain_song 7051, plain_song 7052]"
    by (simp_all add: r batch_songs_def) (simp add: refuse_first_def)
  have d: "detail_retryable (always_500_detail k)" for k
    by (simp add: detail_retryable_def always_500_detail_def)
  have t: "track_ids demo_playlist = demo_ids" "demo_ids \<noteq> []"
    by (simp_all add: demo_playlist_def demo_ids_def)
  show ?thesis
    using failed_batch_dropped_not_retried
      [of demo_ids "[]" refuse_first "[]" demo_detail demo_playlist "asc ''24381616''"
          always_500_detail]
      r s d refuse_first_answered
    by (simp add: demo_detail_def t demo_batches)
qed

subsection \<open>Downloading one song\<close>

lemma demo_song_filename: "song_filename demo_song = Inr (asc ''001. Hello - Adele.mp3'')"
  by (simp add: song_eval)

lemma demo_song_path: "path_join download_dir (asc ''001. Hello - Adele.mp3'') = demo_path"
  by (simp add: song_eval)

lemma demo_song_size: "getitem demo_song ''size'' = Inr (IntV 4096)"
  by (simp add: song_eval)

lemma demo_song_url: "getitem demo_song ''url'' = Inr (StrV (asc ''http://m.example/a.mp3''))"
  by (simp add: demo_song_def getitem_def)


lemma demo_world_files: "files (demo_world z r) demo_path = z"
  by (simp add: demo_world_def)

text \<open>
  C3, as amended. When the name of the file can be built, a file exists at the target
  path and its size differs from the size of the song by less than 1024 bytes,
  \<open>download_song\<close> returns \<open>True\<close> without any request and leaves the files as they are.
\<close>

theorem download_song_skips_existing:
  assumes "song_filename song = Inr filename"
      and "files w (path_join download_dir filename) = Some file_size"
      and "getitem song ''size'' = Inr (IntV z)"
      and "\<bar>int file_size - z\<bar> < 1024"
  shows "download_song w song max_retries = (Inr True, [], files w)"
  using assms by (simp add: download_song_def already_there_def and_then_def)

theorem download_song_skips_existing_witness:
  "song_filename demo_song = Inr (asc ''001. Hello - Adele.mp3'')
   \<and> files (demo_world (Some 5000) FetchRaises) demo_path = Some 5000
   \<and> getitem demo_song ''size'' = Inr (IntV 4096)
   \<and> download_song (demo_world (Some 5000) FetchRaises) demo_song 3
       = (Inr True, [], files (demo_world (Some 5000) FetchRaises))"
  using download_song_skips_existing [of demo_song "asc ''001. Hello - Adele.mp3''"
      "demo_world (Some 5000) FetchRaises" 5000 4096 3]
  by (simp add: demo_song_filename demo_song_path demo_song_size demo_world_files)

text \<open>
  The claim as stated includes a difference of exactly 1024 bytes. There the test
  \<open>abs(file_size - song['size']) < 1024\<close> fails and the file is fetched.
\<close>

theorem download_song_boundary_counterexample:
  "files (demo_world (Some 5120) (Fetched 200 None [4096] False)) demo_path = Some 5120
   \<and> getitem demo_song ''size'' = Inr (IntV 4096)
   \<and> \<bar>int 5120 - 4096\<bar> = 1024
   \<and> fst (snd (download_song (demo_world (Some 5120) (Fetched 200 None [4096] False)) demo_song 3))
       = [GetFile (asc ''http://m.example/a.mp3'')]"
  by (simp add: demo_song_size demo_world_files download_song_def demo_song_filename
      demo_song_path already_there_def and_then_def upt_rec attempt_download_def demo_song_url
      total_size_def demo_world_def)

lemma attempt_download_fails:
  assumes "getitem song ''url'' = Inr u" and "fetch_fails (fetch w (str_of_val u) k)"
  shows "attempt_download w song filepath k fs = (False, [GetFile (str_of_val u)], fs)"
  using assms by (auto simp: attempt_download_def fetch_fails_def split: fetched.splits)

lemma download_loop_fails:
  assumes "getitem song ''url'' = Inr u" and "\<forall>k. fetch_fails (fetch w (str_of_val u) k)"
  shows "k \<le> n \<Longrightarrow> download_loop w song filepath (int n) [k..<n] fs
           = (False, attempts_trace (str_of_val u) (n - k), fs)"
proof (induction "n - k" arbitrary: k)
  case 0
  then show ?case by simp
next
  case (Suc d)
  then have kn: "k < n" and d: "d = n - Suc k" by auto
  have upt: "[k..<n] = k # [Suc k..<n]" using kn by (simp add: upt_rec)
  have att: "attempt_download w song filepath k fs = (False, [GetFile (str_of_val u)], fs)"
    using assms attempt_download_fails by blast
  show ?case
  proof (cases "Suc k < n")
    case True
    then have ih: "download_loop w song filepath (int n) [Suc k..<n] fs
           = (False, attempts_trace (str_of_val u) (n - Suc k), fs)"
      using Suc.hyps(1)[of "Suc k"] d by simp
    obtain m where m: "n - Suc k = Suc m" using True by (metis Suc_diff_Suc)
    then have nk: "n - k = Suc (Suc m)" using kn by linarith
    show ?thesis using True ih by (simp add: upt att m nk)
  next
    case False
    then have "n = Suc k" using kn by simp
    then show ?thesis by (simp add: att)
  qed
qed

lemma count_attempts_trace:
  "length (filter (\<lambda>e. e = GetFile u) (attempts_trace u n)) = n"
  by (induction u n rule: attempts_trace.induct) auto

lemma sleeps_attempts_trace:
  "filter (\<lambda>e. e \<noteq> GetFile u) (attempts_trace u n) = replicate (n - 1) (Sleep 2000)"
  by (induction u n rule: attempts_trace.induct) auto

text \<open>
  C4. When the name of the file can be built, the file is not already there, and every
  fetch of the link fails (it raises, or its status is neither 200 nor 206),
  \<open>download_song\<close> sends exactly \<open>max_retries\<close> requests, three by default, with a
  pause of two seconds between one and the next, leaves the files as they are and returns
  \<open>False\<close>.
\<close>

theorem download_song_retry_bound:
  assumes "song_filename song = Inr filename"
      and "already_there (files w) (path_join download_dir filename) song = Inr False"
      and "getitem song ''url'' = Inr u"
      and "\<forall>k. fetch_fails (fetch w (str_of_val u) k)"
  shows "download_song w song max_retries
           = (Inr False, attempts_trace (str_of_val u) (nat max_retries), files w)
         \<and> length (filter (\<lambda>e. e = GetFile (str_of_val u))
                     (attempts_trace (str_of_val u) (nat max_retries))) = nat max_retries
         \<and> filter (\<lambda>e. e \<noteq> GetFile (str_of_val u))
                     (attempts_trace (str_of_val u) (nat max_retries))
             = replicate (nat max_retries - 1) (Sleep 2000)"
proof -
  have "download_loop w song (path_join download_dir filename) max_retries [0..<nat max_retries] (files w)
        = (False, attempts_trace (str_of_val u) (nat max_retries), files w)"
  proof (cases "0 \<le> max_retries")
    case True
    then have "int (nat max_retries) = max_retries" by simp
    then show ?thesis
      using download_loop_fails[OF assms(3,4), of 0 "nat max_retries" "path_join download_dir filename" "files w"]
      by simp
  next
    case False
    then show ?thesis by simp
  qed
  then show ?thesis
    using assms(1,2) by (simp add: download_song_def count_attempts_trace sleeps_attempts_trace)
qed

theorem download_song_retry_bound_witness:
  "already_there (files (demo_world None (Fetched 500 None [] False))) demo_path demo_song = Inr False
   \<and> fetch_fails (Fetched 500 None [] False)
   \<and> download_song (demo_world None (Fetched 500 None [] False)) demo_song 3
       = (Inr False,
          [GetFile (asc ''http://m.example/a.mp3''), Sleep 2000,
           GetFile (asc ''http://m.example/a.mp3''), Sleep 2000,
           GetFile (asc ''http://m.example/a.mp3'')],
          files (demo_world None (Fetched 500 None [] False)))"
proof -
  have a: "already_there (files (demo_world None (Fetched 500 None [] False))) demo_path demo_song = Inr False"
    by (simp add: already_there_def demo_world_files)
  have f: "fetch_fails (Fetched 500 None [] False)"
    by (simp add: fetch_fails_def)
  then have ff: "\<forall>k. fetch_fails (fetch (demo_world None (Fetched 500 None [] False))
              (str_of_val (StrV (asc ''http://m.example/a.mp3''))) k)"
    by (simp add: demo_world_def)
  show ?thesis
    using download_song_retry_bound [OF demo_song_filename _ demo_song_url ff, of 3] a f
    by (simp add: demo_song_path numeral_3_eq_3)
qed












subsection \<open>The number of parallel downloads\<close>

lemma py_int_3: "py_int (asc ''3'') = Some 3"
  by (simp add: text_eval)

lemma ask_workers_range: "1 \<le> ask_workers line \<and> ask_workers line \<le> 10"
  by (simp add: ask_workers_def py_int_3 split: option.splits)

text \<open>The songs of a list all have an integer \<open>index\<close>, so nothing raises while
  \<open>download_all_songs\<close> runs on them and counts.\<close>

lemma song_of_match_index:
  "song_of_match m = Inr song \<Longrightarrow> \<exists>i. getitem song ''index'' = Inr (IntV i)"
  by (auto simp: song_of_match_def getitem_def split: list.splits option.splits)

lemma collect_members: "collect rs = Inr vs \<Longrightarrow> v \<in> set vs \<Longrightarrow> Inr v \<in> set rs"
proof (induction rs arbitrary: vs)
  case Nil
  then show ?case by simp
next
  case (Cons r rs)
  then show ?case
    by (auto simp: and_then_def split: sum.splits)
qed

lemma parse_list_file_index:
  assumes "song \<in> set (parse_list_file list_file)"
  shows "\<exists>i. getitem song ''index'' = Inr (IntV i)"
proof (cases list_file)
  case None
  then show ?thesis using assms by (simp add: parse_list_file_def)
next
  case (Some content)
  show ?thesis
  proof (cases "collect (map song_of_match (findall song_pattern content))")
    case (Inl e)
    then show ?thesis using assms Some by (simp add: parse_list_file_def)
  next
    case (Inr songs)
    then have "song \<in> set songs" using assms Some by (simp add: parse_list_file_def)
    with Inr have "Inr song \<in> set (map song_of_match (findall song_pattern content))"
      by (rule collect_members)
    then obtain m where "song_of_match m = Inr song" by auto
    then show ?thesis by (rule song_of_match_index)
  qed
qed

lemma run_tasks_songs: "map fst (fst (run_tasks w songs fs)) = songs"
proof (induction songs arbitrary: fs)
  case Nil
  then show ?case by simp
next
  case (Cons song songs)
  obtain r ev fs' where d: "download_song (w\<lparr>files := fs\<rparr>) song 3 = (r, ev, fs')"
    by (cases "download_song (w\<lparr>files := fs\<rparr>) song 3")
  obtain rs ev' fs'' where t: "run_tasks w songs fs' = (rs, ev', fs'')"
    by (cases "run_tasks w songs fs'")
  then have "map fst rs = songs" using Cons.IH[of fs'] by simp
  then show ?case using d t by simp
qed

lemma count_results_indexed:
  "(\<And>song. song \<in> set (map fst rs) \<Longrightarrow> \<exists>i. getitem song ''index'' = Inr (IntV i))
     \<Longrightarrow> \<exists>counts'. count_results rs counts = Inr counts'"
proof (induction rs arbitrary: counts)
  case Nil
  then show ?case by simp
next
  case (Cons sr rs)
  obtain song r where sr: "sr = (song, r)" by (cases sr)
  obtain i where i: "getitem song ''index'' = Inr (IntV i)"
    using Cons.prems[of song] sr by auto
  have rest: "\<exists>counts'. count_results rs c = Inr counts'" for c
    using Cons.IH[of c] Cons.prems by simp
  show ?case
    using rest i by (cases r) (simp_all add: sr and_then_def)
qed

lemma download_all_songs_workers:
  assumes "0 < max_workers"
      and "\<And>song. song \<in> set songs \<Longrightarrow> \<exists>i. getitem song ''index'' = Inr (IntV i)"
  shows "\<exists>report. fst (download_all_songs w songs max_workers) = Inr report
           \<and> pool_workers report = max_workers"
proof -
  obtain results ev fs where r: "run_tasks w songs (files w) = (results, ev, fs)"
    by (cases "run_tasks w songs (files w)")
  then have "map fst results = songs" using run_tasks_songs[of w songs "files w"] by simp
  then obtain counts where "count_results results (0, 0) = Inr counts"
    using count_results_indexed[of results "(0, 0)"] assms(2) by auto
  then show ?thesis using assms(1) r by (simp add: download_all_songs_def)
qed

text \<open>
  C9. The number that \<open>main\<close> takes from the answer of the user lies between 1 and 10:
  it is 3 when the answer is empty or not a number, 1 for a number below 1, 10 for a
  number above 10, and the number itself otherwise. When \<open>main\<close> runs
  \<open>download_all_songs\<close>, it runs it on the songs of the list with this number, and the
  pool is created with exactly this number of workers.
\<close>

theorem ask_workers_clamped:
  "1 \<le> ask_workers line \<and> ask_workers line \<le> 10
   \<and> (strip line = [] \<longrightarrow> ask_workers line = 3)
   \<and> (py_int (strip line) = None \<longrightarrow> ask_workers line = 3)
   \<and> (py_int (strip line) = Some n \<longrightarrow>
         ask_workers line = (if n < 1 then 1 else if 10 < n then 10 else n))
   \<and> (main w (Some content) answer line = Ran run \<longrightarrow>
         run = download_all_songs w (parse_list_file (Some content)) (ask_workers line)
         \<and> (\<exists>report. fst run = Inr report \<and> pool_workers report = ask_workers line))"
proof (intro conjI impI)
  show "1 \<le> ask_workers line" "ask_workers line \<le> 10"
    using ask_workers_range by blast+
  show "ask_workers line = 3" if "strip line = []"
    using that by (simp add: ask_workers_def py_int_3)
  show "ask_workers line = 3" if "py_int (strip line) = None"
    using that by (simp add: ask_workers_def py_int_3)
  show "ask_workers line = (if n < 1 then 1 else if 10 < n then 10 else n)"
    if "py_int (strip line) = Some n"
  proof -
    have "py_int [] = None" by (simp add: py_int_def)
    then have "strip line \<noteq> []" using that by auto
    then show ?thesis using that by (simp add: ask_workers_def)
  qed
  assume m: "main w (Some content) answer line = Ran run"
  then show r: "run = download_all_songs w (parse_list_file (Some content)) (ask_workers line)"
    by (simp add: main_def split: if_splits)
  have "0 < ask_workers line" using ask_workers_range[of line] by simp
  then show "\<exists>report. fst run = Inr report \<and> pool_workers report = ask_workers line"
    unfolding r using parse_list_file_index by (rule download_all_songs_workers)
qed

lemma py_int_examples:
  "py_int (strip (asc ''25'')) = Some 25" "py_int (strip (asc ''0'')) = Some 0"
  "py_int (strip (asc ''4'')) = Some 4" "py_int (strip (asc ''abc'')) = None"
  "strip (asc ''  '') = []"
  by (simp_all add: text_eval)

text \<open>The full-width digit five is a number for \<open>int\<close>.\<close>

lemma py_int_full_width: "py_int (strip [65301]) = Some 5"
  by (simp add: text_eval digit_zeros_def)

lemma demo_run:
  "download_all_songs (demo_world None FetchRaises) [demo_song] 10
     = (Inr \<lparr>pool_workers = 10, success_count = 0, failed_count = 1\<rparr>,
        [GetFile (asc ''http://m.example/a.mp3''), Sleep 2000,
         GetFile (asc ''http://m.example/a.mp3''), Sleep 2000,
         GetFile (asc ''http://m.example/a.mp3'')],
        files (demo_world None FetchRaises))"
proof -
  have w: "(demo_world None FetchRaises)\<lparr>files := files (demo_world None FetchRaises)\<rparr>
      = demo_world None FetchRaises"
    by simp
  have "download_song (demo_world None FetchRaises) demo_song 3
      = (Inr False,
         [GetFile (asc ''http://m.example/a.mp3''), Sleep 2000,
          GetFile (asc ''http://m.example/a.mp3''), Sleep 2000,
          GetFile (asc ''http://m.example/a.mp3'')],
         files (demo_world None FetchRaises))"
    by (simp add: download_song_def demo_song_filename demo_song_path already_there_def
        demo_world_files upt_rec attempt_download_def demo_song_url demo_world_def)
  then show ?thesis
    by (simp add: download_all_songs_def w)
qed

theorem ask_workers_clamped_witness:
  "strip (asc ''  '') = [] \<and> ask_workers (asc ''  '') = 3
   \<and> py_int (strip (asc ''abc'')) = None \<and> ask_workers (asc ''abc'') = 3
   \<and> py_int (strip (asc ''25'')) = Some 25 \<and> ask_workers (asc ''25'') = 10
   \<and> py_int (strip (asc ''0'')) = Some 0 \<and> ask_workers (asc ''0'') = 1
   \<and> py_int (strip (asc ''4'')) = Some 4 \<and> ask_workers (asc ''4'') = 4
   \<and> py_int (strip [65301]) = Some 5 \<and> ask_workers [65301] = 5
   \<and> main (demo_world None FetchRaises) (Some demo_manifest) (asc ''Y'') (asc ''25'')
       = Ran (download_all_songs (demo_world None FetchRaises) [demo_song] 10)
   \<and> fst (download_all_songs (demo_world None FetchRaises) [demo_song] 10)
       = Inr \<lparr>pool_workers = 10, success_count = 0, failed_count = 1\<rparr>"
proof -
  have m: "main (demo_world None FetchRaises) (Some demo_manifest) (asc ''Y'') (asc ''25'')
      = Ran (download_all_songs (demo_world None FetchRaises) [demo_song]
               (ask_workers (asc ''25'')))"
    by (simp add: main_def parse_demo_manifest)
      (simp add: yes_answers_def lower_def strip_def is_space_def asc_def)
  show ?thesis
    using ask_workers_clamped [of "asc ''  ''"]
      ask_workers_clamped [of "asc ''abc''"]
      ask_workers_clamped [of "asc ''25''" 25 "demo_world None FetchRaises" demo_manifest
        "asc ''Y''" "download_all_songs (demo_world None FetchRaises) [demo_song]
               (ask_workers (asc ''25''))"]
      ask_workers_clamped [of "asc ''0''" 0]
      ask_workers_clamped [of "asc ''4''" 4]
      ask_workers_clamped [of "[65301]" 5]
      py_int_examples py_int_full_width m demo_run
    by simp
qed

end
